theory Spec2Isabelle
  imports Main
begin

section \<open>Python values, strings and exceptions\<close>

text \<open>
  Python \<open>str\<close> and \<open>bytes\<close> are both modelled as \<open>string\<close> (a list of 8-bit characters);
  the program only builds ASCII text, for which \<open>str.encode()\<close> is the identity.
  A call into a library either returns a value or raises an exception of a library class,
  named by its class name.
\<close>

datatype 'a outcome = Returns 'a | Raises string

text \<open>A value that is formatted into a string: a \<open>str\<close> or an \<open>int\<close>.\<close>

datatype pyval = PStr string | PInt int

definition CRLF :: string where
  "CRLF = [CHR 0x0D, CHR 0x0A]"

definition LF :: string where
  "LF = [CHR 0x0A]"

fun str_nat :: "nat \<Rightarrow> string" where
  "str_nat n = (if n < 10 then [''0123456789'' ! n]
                else str_nat (n div 10) @ [''0123456789'' ! (n mod 10)])"

declare str_nat.simps [simp del]

definition str_int :: "int \<Rightarrow> string" where
  "str_int i = (if i < 0 then ''-'' @ str_nat (nat (- i)) else str_nat (nat i))"

text \<open>\<open>str(v)\<close>, as \<open>str.format\<close> applies it to an argument with an empty format spec.\<close>

fun py_str :: "pyval \<Rightarrow> string" where
  "py_str (PStr x) = x"
| "py_str (PInt i) = str_int i"

text \<open>
  \<open>x.split(sep)\<close> for a non-empty separator: the pieces between the non-overlapping
  occurrences of \<open>sep\<close>, scanned from the left. The result is never empty. Every separator
  in the program is a non-empty literal (an empty one raises ValueError in Python).
\<close>

fun split_from :: "string \<Rightarrow> string \<Rightarrow> string \<Rightarrow> string list" where
  "split_from sep cur [] = [cur]"
| "split_from sep cur (c # cs) =
     (if take (length sep) (c # cs) = sep
      then cur # split_from sep [] (drop (length sep - 1) cs)
      else split_from sep (cur @ [c]) cs)"

definition str_split :: "string \<Rightarrow> string \<Rightarrow> string list" where
  "str_split x sep = split_from sep [] x"

text \<open>\<open>sep.join(parts)\<close>.\<close>

fun str_join :: "string \<Rightarrow> string list \<Rightarrow> string" where
  "str_join sep [] = []"
| "str_join sep [x] = x"
| "str_join sep (x # y # zs) = x @ sep @ str_join sep (y # zs)"

text \<open>\<open>x.replace(a, b)\<close> for single characters \<open>a\<close> and \<open>b\<close>.\<close>

definition str_replace :: "string \<Rightarrow> char \<Rightarrow> char \<Rightarrow> string" where
  "str_replace x a b = map (\<lambda>c. if c = a then b else c) x"

text \<open>
  \<open>template.format(*args)\<close> for the replacement fields the program uses: \<open>{}\<close>
  (automatic numbering) and \<open>{d}\<close> with one decimal digit (manual numbering); \<open>{{\<close> and
  \<open>}}\<close> stand for a brace. Arguments that no field names are ignored, as in Python. A field
  beyond the arguments raises IndexError; switching between the two numberings, or any
  other use of a brace, raises ValueError.
\<close>

datatype numbering = Unset | Automatic nat | Manual

definition digit_val :: "char \<Rightarrow> nat option" where
  "digit_val d =
     (if d = CHR ''0'' then Some 0 else if d = CHR ''1'' then Some 1
      else if d = CHR ''2'' then Some 2 else if d = CHR ''3'' then Some 3
      else if d = CHR ''4'' then Some 4 else if d = CHR ''5'' then Some 5
      else if d = CHR ''6'' then Some 6 else if d = CHR ''7'' then Some 7
      else if d = CHR ''8'' then Some 8 else if d = CHR ''9'' then Some 9
      else None)"

definition emit :: "string \<Rightarrow> string outcome \<Rightarrow> string outcome" where
  "emit x r = (case r of Returns y \<Rightarrow> Returns (x @ y) | Raises e \<Rightarrow> Raises e)"

fun format_from :: "numbering \<Rightarrow> string \<Rightarrow> pyval list \<Rightarrow> string outcome" where
  "format_from m [] args = Returns []"
| "format_from m (c # cs) args =
     (if c = CHR ''{'' then
        (case cs of
           [] \<Rightarrow> Raises ''ValueError''
         | d # rest \<Rightarrow>
             if d = CHR ''{'' then emit ''{'' (format_from m rest args)
             else if d = CHR ''}'' then
               (case m of
                  Manual \<Rightarrow> Raises ''ValueError''
                | Unset \<Rightarrow>
                    if 0 < length args
                    then emit (py_str (args ! 0)) (format_from (Automatic 1) rest args)
                    else Raises ''IndexError''
                | Automatic n \<Rightarrow>
                    if n < length args
                    then emit (py_str (args ! n)) (format_from (Automatic (Suc n)) rest args)
                    else Raises ''IndexError'')
             else
               (case (digit_val d, rest) of
                  (Some k, e # rest') \<Rightarrow>
                    if e = CHR ''}'' then
                      (case m of
                         Automatic n \<Rightarrow> Raises ''ValueError''
                       | _ \<Rightarrow>
                           if k < length args
                           then emit (py_str (args ! k)) (format_from Manual rest' args)
                           else Raises ''IndexError'')
                    else Raises ''ValueError''
                | _ \<Rightarrow> Raises ''ValueError''))
      else if c = CHR ''}'' then
        (case cs of
           [] \<Rightarrow> Raises ''ValueError''
         | d # rest \<Rightarrow>
             if d = CHR ''}'' then emit ''}'' (format_from m rest args)
             else Raises ''ValueError'')
      else emit [c] (format_from m cs args))"

definition str_format :: "string \<Rightarrow> pyval list \<Rightarrow> string outcome" where
  "str_format template args = format_from Unset template args"

section \<open>Transport: sockets and the HTTP proxy tunnel\<close>

text \<open>
  A connected socket: the peer address, the bytes the peer will still deliver, what
  \<open>recv\<close> does once they are used up (at end of stream \<open>recv\<close> returns \<open>b''\<close>, every time
  it is called; on a reset or a timeout it raises), whether sending raises, and the bytes
  sent so far.
\<close>

datatype stream_end = EOF | Fails string

record sock =
  peer :: "pyval \<times> pyval"
  incoming :: string
  at_end :: stream_end
  send_error :: "string option"
  sent :: string

text \<open>
  The network: what \<open>socket.create_connection(address, timeout)\<close> meets at an address,
  an exception (refused, unreachable, timed out) or a peer with its byte stream.
\<close>

type_synonym network = "pyval \<times> pyval \<Rightarrow> (string \<times> stream_end \<times> string option) outcome"

definition create_connection :: "network \<Rightarrow> pyval \<times> pyval \<Rightarrow> 't \<Rightarrow> sock outcome" where
  "create_connection net address timeout =
     (case net address of
        Raises e \<Rightarrow> Raises e
      | Returns (bytes, fin, serr) \<Rightarrow>
          Returns \<lparr>peer = address, incoming = bytes, at_end = fin, send_error = serr, sent = []\<rparr>)"

definition sendall :: "sock \<Rightarrow> string \<Rightarrow> sock outcome" where
  "sendall sk payload =
     (case send_error sk of
        Some e \<Rightarrow> Raises e
      | None \<Rightarrow> Returns (sk\<lparr>sent := sent sk @ payload\<rparr>))"

text \<open>\<open>sock.recv(1)\<close>: the next byte, or \<open>b''\<close> at end of stream.\<close>

definition recv1 :: "sock \<Rightarrow> (string \<times> sock) outcome" where
  "recv1 sk =
     (case incoming sk of
        b # bs \<Rightarrow> Returns ([b], sk\<lparr>incoming := bs\<rparr>)
      | [] \<Rightarrow> (case at_end sk of EOF \<Rightarrow> Returns ([], sk) | Fails e \<Rightarrow> Raises e))"

text \<open>
  \<open>recvline\<close>: the \<open>while True\<close> loop, with \<open>line\<close> as the accumulator. The loop leaves only
  through \<open>stop == 1\<close>, which is set when the byte read is a line feed. The result \<open>None\<close>
  means that the loop never ends.
\<close>

partial_function (option) recvline_loop :: "sock \<Rightarrow> string \<Rightarrow> (string \<times> sock) outcome option" where
  "recvline_loop sk line =
     (case recv1 sk of
        Raises e \<Rightarrow> Some (Raises e)
      | Returns (i, sk') \<Rightarrow>
          if (if i = LF then (1::nat) else 0) = 1
          then Some (Returns (line @ i, sk'))
          else recvline_loop sk' (line @ i))"

definition recvline :: "sock \<Rightarrow> (string \<times> sock) outcome option" where
  "recvline sk = recvline_loop sk []"

text \<open>\<open>for x in range(n): recvline(new_socket)\<close>: the lines read are dropped.\<close>

fun discard_lines :: "nat \<Rightarrow> sock \<Rightarrow> sock outcome option" where
  "discard_lines 0 sk = Some (Returns sk)"
| "discard_lines (Suc n) sk =
     (case recvline sk of
        None \<Rightarrow> None
      | Some (Raises e) \<Rightarrow> Some (Raises e)
      | Some (Returns (line, sk')) \<Rightarrow> discard_lines n sk')"

text \<open>
  The object \<open>ProxySMTP()\<close> or \<open>ProxySMTP_SSL()\<close>. The attributes \<open>p_address\<close> and \<open>p_port\<close>
  exist only once \<open>TestCase.__init__\<close> has set them (\<open>hasattr\<close> is \<open>\<noteq> None\<close>).
\<close>

record smtp =
  is_ssl :: bool
  debuglevel :: int
  p_address :: "string option"
  p_port :: "int option"

text \<open>
  \<open>smtplib.SMTP._get_socket(host, port, timeout)\<close>, the method \<open>super()\<close> reaches: a direct
  connection to \<open>(host, port)\<close>.
\<close>

definition super_get_socket :: "network \<Rightarrow> pyval \<Rightarrow> pyval \<Rightarrow> 't \<Rightarrow> sock outcome" where
  "super_get_socket net host port timeout = create_connection net (host, port) timeout"

text \<open>
  \<open>ProxyMixin._get_socket(self, port, host, timeout)\<close>, with the parameter names of the
  source. smtplib calls it as \<open>self._get_socket(host, port, self.timeout)\<close>, by position:
  the parameter named \<open>port\<close> holds the target host and the parameter named \<open>host\<close> holds
  the target port. The debug print goes to stderr and changes nothing here.
\<close>

definition get_socket :: "network \<Rightarrow> smtp \<Rightarrow> pyval \<Rightarrow> pyval \<Rightarrow> 't \<Rightarrow> sock outcome option" where
  "get_socket net self port host timeout =
     (case (p_address self, p_port self) of
        (Some pa, Some pp) \<Rightarrow>
          (case create_connection net (PStr pa, PInt pp) timeout of
             Raises e \<Rightarrow> Some (Raises e)
           | Returns new_socket \<Rightarrow>
               (case str_format (''CONNECT {0}:{1} HTTP/1.1'' @ CRLF @ CRLF) [port, host] of
                  Raises e \<Rightarrow> Some (Raises e)
                | Returns request \<Rightarrow>
                    (case sendall new_socket request of
                       Raises e \<Rightarrow> Some (Raises e)
                     | Returns sk \<Rightarrow> discard_lines 2 sk)))
      | _ \<Rightarrow> Some (super_get_socket net port host timeout))"

section \<open>Protocol session and variant policies\<close>

text \<open>
  Exceptions as the runner sees them: the program's own \<open>SMTPError(code, msg)\<close>, or an
  exception of any other class, which \<open>except SMTPError\<close> does not catch.
\<close>

datatype exn = SMTPError int string | Other string

text \<open>The classes of the registry, \<open>BaseTest\<close> included.\<close>

datatype cls =
    BaseTest | DefaultTest | BogusLocalTest | LocalTest | LocalhostTest | UseronlyTest
  | NullTest | PercentRemoteTest | KnownTest | EmptyHostTest | AddressTest | HostDomainTest
  | NonexistingEhloTest | EhloOverflowTest | BangPathTest | SourceRouting | SourceRouting2
  | SourceRoutingPercent

fun class_name :: "cls \<Rightarrow> string" where
  "class_name BaseTest = ''BaseTest''"
| "class_name DefaultTest = ''DefaultTest''"
| "class_name BogusLocalTest = ''BogusLocalTest''"
| "class_name LocalTest = ''LocalTest''"
| "class_name LocalhostTest = ''LocalhostTest''"
| "class_name UseronlyTest = ''UseronlyTest''"
| "class_name NullTest = ''NullTest''"
| "class_name PercentRemoteTest = ''PercentRemoteTest''"
| "class_name KnownTest = ''KnownTest''"
| "class_name EmptyHostTest = ''EmptyHostTest''"
| "class_name AddressTest = ''AddressTest''"
| "class_name HostDomainTest = ''HostDomainTest''"
| "class_name NonexistingEhloTest = ''NonexistingEhloTest''"
| "class_name EhloOverflowTest = ''EhloOverflowTest''"
| "class_name BangPathTest = ''BangPathTest''"
| "class_name SourceRouting = ''SourceRouting''"
| "class_name SourceRouting2 = ''SourceRouting2''"
| "class_name SourceRoutingPercent = ''SourceRoutingPercent''"

text \<open>
  The methods of the session object that the program calls, with their arguments;
  \<open>Close\<close> is \<open>self.s.close()\<close>.
\<close>

datatype cmd =
    Connect string pyval | Ehlo string | Rset | Mail string | Rcpt string | Data string
  | Quit | Close

text \<open>
  What the program meets outside itself: the variable \<open>http_proxy\<close> of the process
  environment, whether \<open>helperlib\<close> can be imported, the built-in \<open>int\<close> on a string, the
  resolver, and for the session of the \<open>i\<close>-th test case what each method call does
  once its command is built (returns a reply \<open>(code, msg)\<close> or raises a library
  exception).
\<close>

record env =
  http_proxy :: "string option"
  have_helperlib :: bool
  py_int :: "string \<Rightarrow> int outcome"
  gethostbyname :: "string \<Rightarrow> string outcome"
  server :: "nat \<Rightarrow> cmd \<Rightarrow> (int \<times> string) outcome"

record testcase =
  cls :: cls
  host :: string
  port :: pyval
  local_addr :: string
  remote_addr :: string
  s :: smtp

text \<open>
  The proxy settings read from the environment, as \<open>TestCase.__init__\<close> and \<open>run_tests\<close>
  both do it: \<open>split('//')[1]\<close>, then \<open>split(':')\<close> unpacked into two names, then \<open>int\<close>.
\<close>

definition proxy_from_environ :: "env \<Rightarrow> (string \<times> int) option outcome" where
  "proxy_from_environ e =
     (case http_proxy e of
        None \<Rightarrow> Returns None
      | Some v \<Rightarrow>
          (let parts = str_split v ''//'' in
           if length parts < 2 then Raises ''IndexError''
           else
             (let proxy = parts ! 1; ap = str_split proxy '':'' in
              if length ap \<noteq> 2 then Raises ''ValueError''
              else
                (case py_int e (ap ! 1) of
                   Raises x \<Rightarrow> Raises x
                 | Returns n \<Rightarrow> Returns (Some (ap ! 0, n))))))"

text \<open>\<open>TestCase.__init__\<close>.\<close>

definition init ::
  "env \<Rightarrow> cls \<Rightarrow> string \<Rightarrow> string \<Rightarrow> string \<Rightarrow> pyval \<Rightarrow> bool \<Rightarrow> bool \<Rightarrow> testcase outcome" where
  "init e c host' local_addr' remote_addr' port' ssl debug =
     (let s0 = \<lparr>is_ssl = ssl, debuglevel = (if debug then 1 else 0),
                p_address = None, p_port = None\<rparr>
      in case proxy_from_environ e of
           Raises x \<Rightarrow> Raises x
         | Returns None \<Rightarrow>
             Returns \<lparr>cls = c, host = host', port = port', local_addr = local_addr',
                      remote_addr = remote_addr', s = s0\<rparr>
         | Returns (Some (pa, pp)) \<Rightarrow>
             Returns \<lparr>cls = c, host = host', port = port', local_addr = local_addr',
                      remote_addr = remote_addr',
                      s = s0\<lparr>p_address := Some pa, p_port := Some pp\<rparr>\<rparr>)"

subsection \<open>The methods each class defines\<close>

definition TestCase_get_ehlo_host :: "testcase \<Rightarrow> string" where
  "TestCase_get_ehlo_host self = last (str_split (remote_addr self) ''@'')"

definition BaseTest_get_sender :: "testcase \<Rightarrow> string" where
  "BaseTest_get_sender self = remote_addr self"

definition BaseTest_get_rcpt :: "testcase \<Rightarrow> string" where
  "BaseTest_get_rcpt self = local_addr self"

definition DefaultTest_get_sender :: "testcase \<Rightarrow> string" where
  "DefaultTest_get_sender self = remote_addr self"

text \<open>
  \<open>get_rcpt = get_sender\<close> in the body of \<open>DefaultTest\<close> binds the function defined just
  above it; a subclass that overrides \<open>get_sender\<close> leaves \<open>get_rcpt\<close> as it is.
\<close>

definition DefaultTest_get_rcpt :: "testcase \<Rightarrow> string" where
  "DefaultTest_get_rcpt = DefaultTest_get_sender"

definition BogusLocalTest_get_sender :: "testcase \<Rightarrow> string" where
  "BogusLocalTest_get_sender self =
     str_join ''@'' [''some_address'', last (str_split (local_addr self) ''@'')]"

definition LocalTest_get_sender :: "testcase \<Rightarrow> string" where
  "LocalTest_get_sender self = local_addr self"

definition LocalhostTest_get_sender :: "testcase \<Rightarrow> string" where
  "LocalhostTest_get_sender self =
     (let sender = [hd (str_split (local_addr self) ''@''), ''localhost'']
      in str_join ''@'' sender)"

definition UseronlyTest_get_sender :: "testcase \<Rightarrow> string" where
  "UseronlyTest_get_sender self = hd (str_split (local_addr self) ''@'')"

definition NullTest_get_sender :: "testcase \<Rightarrow> string" where
  "NullTest_get_sender self = []"

definition PercentRemoteTest_get_rcpt :: "testcase \<Rightarrow> string" where
  "PercentRemoteTest_get_rcpt self = str_replace (remote_addr self) (CHR ''@'') (CHR ''%'')"

definition KnownTest_get_sender :: "testcase \<Rightarrow> string" where
  "KnownTest_get_sender self =
     (let sender = [''postmaster'', last (str_split (local_addr self) ''@'')]
      in str_join ''@'' sender)"

definition EmptyHostTest_get_sender :: "testcase \<Rightarrow> string" where
  "EmptyHostTest_get_sender self = hd (str_split (local_addr self) ''@'') @ ''@''"

definition AddressTest_get_sender :: "env \<Rightarrow> testcase \<Rightarrow> string outcome" where
  "AddressTest_get_sender e self =
     (case gethostbyname e (host self) of
        Raises x \<Rightarrow> Raises x
      | Returns addr \<Rightarrow>
          str_format ''{}@[@]'' [PStr (hd (str_split (local_addr self) ''@'')), PStr addr])"

definition HostDomainTest_get_ehlo_host :: "testcase \<Rightarrow> string" where
  "HostDomainTest_get_ehlo_host self = last (str_split (local_addr self) ''@'')"

definition NonexistingEhloTest_get_ehlo_host :: "testcase \<Rightarrow> string" where
  "NonexistingEhloTest_get_ehlo_host self = ''this_domain_does_nt_exist.org''"

definition EhloOverflowTest_get_ehlo_host :: "testcase \<Rightarrow> string" where
  "EhloOverflowTest_get_ehlo_host self = replicate 2048 (CHR ''A'') @ ''.com''"

definition BangPathTest_get_rcpt :: "testcase \<Rightarrow> string" where
  "BangPathTest_get_rcpt self = str_join ''!'' (rev (str_split (remote_addr self) ''@''))"

text \<open>
  The templates of the three source-routing classes are the literals \<open>@\<close>\<open>{}:{}\<close> and
  \<open>{}@\<close>\<open>{}\<close>, each written here as two adjacent pieces.
\<close>

definition SourceRouting_get_rcpt :: "testcase \<Rightarrow> string outcome" where
  "SourceRouting_get_rcpt self =
     str_format (''@'' @ ''{}:{}'') [PStr (host self), PStr (remote_addr self)]"

definition SourceRouting2_get_rcpt :: "testcase \<Rightarrow> string outcome" where
  "SourceRouting2_get_rcpt self =
     str_format (''{}@'' @ ''{}'') [PStr (remote_addr self), PStr (host self)]"

definition SourceRoutingPercent_get_rcpt :: "testcase \<Rightarrow> string outcome" where
  "SourceRoutingPercent_get_rcpt self =
     str_format (''{}@'' @ ''{}'')
       [PStr (str_replace (remote_addr self) (CHR ''@'') (CHR ''%'')), PStr (host self)]"

subsection \<open>Method resolution along the class hierarchy\<close>

text \<open>
  \<open>BaseTest\<close> and \<open>DefaultTest\<close> derive from \<open>TestCase\<close>; \<open>PercentRemoteTest\<close>,
  \<open>HostDomainTest\<close>, \<open>NonexistingEhloTest\<close>, \<open>EhloOverflowTest\<close>, \<open>BangPathTest\<close> and the
  three source-routing classes derive from \<open>LocalTest\<close>; every other class derives from
  \<open>DefaultTest\<close>, as \<open>LocalTest\<close> does.
\<close>

definition get_sender :: "env \<Rightarrow> testcase \<Rightarrow> string outcome" where
  "get_sender e self =
     (case cls self of
        BaseTest \<Rightarrow> Returns (BaseTest_get_sender self)
      | DefaultTest \<Rightarrow> Returns (DefaultTest_get_sender self)
      | BogusLocalTest \<Rightarrow> Returns (BogusLocalTest_get_sender self)
      | LocalTest \<Rightarrow> Returns (LocalTest_get_sender self)
      | LocalhostTest \<Rightarrow> Returns (LocalhostTest_get_sender self)
      | UseronlyTest \<Rightarrow> Returns (UseronlyTest_get_sender self)
      | NullTest \<Rightarrow> Returns (NullTest_get_sender self)
      | PercentRemoteTest \<Rightarrow> Returns (LocalTest_get_sender self)
      | KnownTest \<Rightarrow> Returns (KnownTest_get_sender self)
      | EmptyHostTest \<Rightarrow> Returns (EmptyHostTest_get_sender self)
      | AddressTest \<Rightarrow> AddressTest_get_sender e self
      | HostDomainTest \<Rightarrow> Returns (LocalTest_get_sender self)
      | NonexistingEhloTest \<Rightarrow> Returns (LocalTest_get_sender self)
      | EhloOverflowTest \<Rightarrow> Returns (LocalTest_get_sender self)
      | BangPathTest \<Rightarrow> Returns (LocalTest_get_sender self)
      | SourceRouting \<Rightarrow> Returns (LocalTest_get_sender self)
      | SourceRouting2 \<Rightarrow> Returns (LocalTest_get_sender self)
      | SourceRoutingPercent \<Rightarrow> Returns (LocalTest_get_sender self))"

definition get_rcpt :: "testcase \<Rightarrow> string outcome" where
  "get_rcpt self =
     (case cls self of
        BaseTest \<Rightarrow> Returns (BaseTest_get_rcpt self)
      | PercentRemoteTest \<Rightarrow> Returns (PercentRemoteTest_get_rcpt self)
      | BangPathTest \<Rightarrow> Returns (BangPathTest_get_rcpt self)
      | SourceRouting \<Rightarrow> SourceRouting_get_rcpt self
      | SourceRouting2 \<Rightarrow> SourceRouting2_get_rcpt self
      | SourceRoutingPercent \<Rightarrow> SourceRoutingPercent_get_rcpt self
      | _ \<Rightarrow> Returns (DefaultTest_get_rcpt self))"

definition get_ehlo_host :: "testcase \<Rightarrow> string" where
  "get_ehlo_host self =
     (case cls self of
        HostDomainTest \<Rightarrow> HostDomainTest_get_ehlo_host self
      | NonexistingEhloTest \<Rightarrow> NonexistingEhloTest_get_ehlo_host self
      | EhloOverflowTest \<Rightarrow> EhloOverflowTest_get_ehlo_host self
      | _ \<Rightarrow> TestCase_get_ehlo_host self)"

subsection \<open>Address quoting\<close>

text \<open>
  The replacement the program installs for \<open>smtplib.quoteaddr\<close>:
  \<open>lambda a: "<{}>".format(a)\<close>.
\<close>

definition quoteaddr :: "string \<Rightarrow> string outcome" where
  "quoteaddr a = str_format ''<{}>'' [PStr a]"

text \<open>
  How the standard library (smtplib of Python 3.11, not part of the repository) puts the
  quoted address on the wire when \<open>mail\<close> and \<open>rcpt\<close> are called without options:
  \<open>putcmd("mail", "FROM:%s" % quoteaddr(sender))\<close> and
  \<open>putcmd("rcpt", "TO:%s" % quoteaddr(recip))\<close>. \<open>putcmd\<close> refuses a command that holds
  a carriage return or a line feed (ValueError) and otherwise calls \<open>send\<close> on the command
  followed by CRLF; \<open>send\<close>, on a session that holds a socket, encodes the string with the
  \<open>ascii\<close> codec (UnicodeEncodeError for a character beyond ASCII) and hands the bytes to
  \<open>sock.sendall\<close>. The result here is the bytes handed to \<open>sendall\<close>, or the exception
  raised before anything is sent.
\<close>

definition is_ascii :: "string \<Rightarrow> bool" where
  "is_ascii x = list_all (\<lambda>c. (of_char c :: nat) < 128) x"

definition send_command :: "string \<Rightarrow> string outcome" where
  "send_command x = (if is_ascii x then Returns x else Raises ''UnicodeEncodeError'')"

definition putcmd :: "string \<Rightarrow> string \<Rightarrow> string outcome" where
  "putcmd c args =
     (let line = (if args = [] then c else c @ '' '' @ args) in
      if CHR 0x0D \<in> set line \<or> CHR 0x0A \<in> set line then Raises ''ValueError''
      else send_command (line @ CRLF))"

definition mail_wire :: "string \<Rightarrow> string outcome" where
  "mail_wire sender =
     (case quoteaddr sender of
        Raises x \<Rightarrow> Raises x
      | Returns q \<Rightarrow> putcmd ''mail'' (''FROM:'' @ q))"

definition rcpt_wire :: "string \<Rightarrow> string outcome" where
  "rcpt_wire recip =
     (case quoteaddr recip of
        Raises x \<Rightarrow> Raises x
      | Returns q \<Rightarrow> putcmd ''rcpt'' (''TO:'' @ q))"

subsection \<open>One session: assertNo5xx, setup, test, teardown\<close>

text \<open>The method \<open>setup\<close> is named \<open>setup_case\<close> here.\<close>

text \<open>
  A piece of a session's run is the pair of what it raised, if anything, and the method
  calls it made on the session object, in order.
\<close>

type_synonym session = "cmd \<Rightarrow> (int \<times> string) outcome"

type_synonym run = "exn option \<times> cmd list"

text \<open>
  The session object as the program calls it. For \<open>ehlo\<close>, \<open>mail\<close> and \<open>rcpt\<close> the library
  first builds and encodes the command line from the argument, which can raise before
  anything is sent; what the call does from there on (sending the bytes, reading the reply)
  is given by \<open>srv\<close>, as it is for every other method. \<open>ehlo\<close> called with the empty
  string sends the local host name instead (\<open>name or self.local_hostname\<close>), which is left
  to \<open>srv\<close>.
\<close>

definition smtp_call :: "session \<Rightarrow> session" where
  "smtp_call srv c =
     (case c of
        Ehlo name \<Rightarrow>
          (if name = [] then srv c
           else (case putcmd ''ehlo'' name of Raises x \<Rightarrow> Raises x | Returns line \<Rightarrow> srv c))
      | Mail a \<Rightarrow> (case mail_wire a of Raises x \<Rightarrow> Raises x | Returns line \<Rightarrow> srv c)
      | Rcpt a \<Rightarrow> (case rcpt_wire a of Raises x \<Rightarrow> Raises x | Returns line \<Rightarrow> srv c)
      | _ \<Rightarrow> srv c)"

text \<open>
  \<open>assertNo5xx\<close>: calls the method, then raises \<open>SMTPError(code, msg)\<close> when
  \<open>code // 100 == 5\<close> and returns \<open>(code, msg)\<close> otherwise. An exception of the method
  itself passes through.
\<close>

definition assertNo5xx :: "session \<Rightarrow> cmd \<Rightarrow> (exn + int \<times> string) \<times> cmd list" where
  "assertNo5xx srv c =
     (case srv c of
        Raises x \<Rightarrow> (Inl (Other x), [c])
      | Returns (code, msg) \<Rightarrow>
          if code div 100 = 5 then (Inl (SMTPError code msg), [c])
          else (Inr (code, msg), [c]))"

text \<open>The statement \<open>code, msg = self.assertNo5xx(...)\<close>.\<close>

definition step :: "session \<Rightarrow> cmd \<Rightarrow> run" where
  "step srv c =
     (case assertNo5xx srv c of
        (Inl x, calls) \<Rightarrow> (Some x, calls)
      | (Inr r, calls) \<Rightarrow> (None, calls))"

text \<open>Two statements in sequence: the second runs only when the first raised nothing.\<close>

definition seq :: "run \<Rightarrow> run \<Rightarrow> run" where
  "seq a b = (case fst a of Some x \<Rightarrow> a | None \<Rightarrow> (fst b, snd a @ snd b))"

text \<open>A statement whose argument is computed first, and may raise.\<close>

definition with_arg :: "string outcome \<Rightarrow> (string \<Rightarrow> run) \<Rightarrow> run" where
  "with_arg a f = (case a of Raises x \<Rightarrow> (Some (Other x), []) | Returns v \<Rightarrow> f v)"

definition setup_case :: "session \<Rightarrow> testcase \<Rightarrow> run" where
  "setup_case srv self =
     seq (step srv (Connect (host self) (port self)))
       (seq (step srv (Ehlo (get_ehlo_host self)))
            (step srv Rset))"

definition test :: "env \<Rightarrow> session \<Rightarrow> testcase \<Rightarrow> run" where
  "test e srv self =
     seq (with_arg (get_sender e self) (\<lambda>a. step srv (Mail a)))
       (seq (with_arg (get_rcpt self) (\<lambda>a. step srv (Rcpt a)))
            (step srv (Data ''Open Mail Relay'')))"

text \<open>
  \<open>teardown\<close>: \<open>self.s.quit()\<close>, then \<open>self.s.close()\<close>; when \<open>quit\<close> raises, the call of
  \<open>close\<close> is not reached.
\<close>

definition teardown :: "session \<Rightarrow> run" where
  "teardown srv =
     (case srv Quit of
        Raises x \<Rightarrow> (Some (Other x), [Quit])
      | Returns r \<Rightarrow> (None, [Quit, Close]))"

text \<open>
  Whether the session object may still hold an open socket after a sequence of method
  calls, given whether it held one before. In smtplib the socket is attached when
  \<open>connect\<close> gets it from \<open>_get_socket\<close>, and \<open>connect\<close> returns with it attached. Every
  path through \<open>quit\<close> leaves the session without a socket: \<open>send\<close> raises at once when
  there is none, \<open>send\<close> calls \<open>close\<close> when \<open>sendall\<close> fails, \<open>getreply\<close> calls \<open>close\<close>
  before it raises, and \<open>quit\<close> calls \<open>close\<close> itself once the reply is read. \<open>close\<close>
  closes the socket. Any other call that raises may itself have closed the socket, so the
  value is an upper bound: \<open>False\<close> means that the socket has been released.
\<close>

fun may_hold_socket :: "session \<Rightarrow> bool \<Rightarrow> cmd list \<Rightarrow> bool" where
  "may_hold_socket srv held [] = held"
| "may_hold_socket srv held (c # cs) =
     may_hold_socket srv
       (case c of
          Connect h p \<Rightarrow> (case srv c of Returns r \<Rightarrow> True | Raises x \<Rightarrow> held)
        | Quit \<Rightarrow> False
        | Close \<Rightarrow> False
        | _ \<Rightarrow> held)
       cs"

text \<open>\<open>__str__\<close>: the three lines of a finding.\<close>

definition to_str :: "env \<Rightarrow> testcase \<Rightarrow> string outcome" where
  "to_str e self =
     (case get_sender e self of
        Raises x \<Rightarrow> Raises x
      | Returns sender \<Rightarrow>
          (case get_rcpt self of
             Raises x \<Rightarrow> Raises x
           | Returns rcpt \<Rightarrow>
               Returns (str_join LF
                 [''EHLO='' @ get_ehlo_host self, ''FROM='' @ sender, ''TO='' @ rcpt])))"

section \<open>The runner\<close>

text \<open>What \<open>helperlib\<close> and \<open>spinner\<close> are asked to display.\<close>

datatype display =
    Info string | Waitfor string | Status string | Status_append string
  | Succeeded | Failed | Success string

text \<open>
  The state that outlives a call of \<open>run_tests\<close>: the module-level list \<open>TESTS\<close>, what
  has been displayed, and the method calls made on the sessions, each with the index of
  its test case.
\<close>

record state =
  TESTS :: "cls list"
  out :: "display list"
  calls :: "(nat \<times> cmd) list"

text \<open>\<open>TESTS\<close> as the module defines it.\<close>

definition TESTS_initial :: "cls list" where
  "TESTS_initial =
     [DefaultTest, BogusLocalTest, LocalTest, LocalhostTest, UseronlyTest, NullTest,
      PercentRemoteTest, KnownTest, EmptyHostTest, AddressTest, HostDomainTest,
      NonexistingEhloTest, EhloOverflowTest, BangPathTest, SourceRouting, SourceRouting2,
      SourceRoutingPercent]"

text \<open>The arguments of \<open>run_tests\<close>.\<close>

record args =
  arg_host :: string
  arg_local :: string
  arg_remote :: string
  arg_port :: pyval
  arg_ssl :: bool
  arg_debug :: bool
  base_test :: bool

text \<open>The session object \<open>self.s\<close> of the \<open>i\<close>-th test case.\<close>

definition session_of :: "env \<Rightarrow> nat \<Rightarrow> session" where
  "session_of e i = smtp_call (server e i)"

text \<open>
  The body of the \<open>for\<close> loop for the \<open>i\<close>-th class \<open>t\<close>: the status line, the
  construction of the test case (outside the \<open>try\<close>), then
  \<open>try: setup; test / except SMTPError / else / finally: teardown\<close>. An exception other
  than \<open>SMTPError\<close> leaves the loop once \<open>teardown\<close> has run; an exception of \<open>teardown\<close>
  replaces any pending one. The pause \<open>time.sleep(0.5)\<close> changes nothing here.
\<close>

definition loop_body ::
  "env \<Rightarrow> args \<Rightarrow> nat \<Rightarrow> cls \<Rightarrow> state \<times> testcase list \<Rightarrow> state \<times> testcase list \<times> exn option" where
  "loop_body e a i t acc =
     (case acc of (st, success) \<Rightarrow>
        (case str_format ''{} ({}/{}) ''
                [PStr (class_name t), PInt (int i), PInt (int (length (TESTS st)))] of
           Raises x \<Rightarrow> (st, success, Some (Other x))
         | Returns line \<Rightarrow>
             (let st1 = st\<lparr>out := out st @ [Status line]\<rparr> in
              case init e t (arg_host a) (arg_local a) (arg_remote a) (arg_port a)
                     (arg_ssl a) (arg_debug a) of
                Raises x \<Rightarrow> (st1, success, Some (Other x))
              | Returns tc \<Rightarrow>
                  (let body = seq (setup_case (session_of e i) tc) (test e (session_of e i) tc);
                       fin = teardown (session_of e i);
                       st2 = st1\<lparr>calls := calls st1 @ map (Pair i) (snd body @ snd fin)\<rparr>
                   in case fst body of
                        None \<Rightarrow>
                          (st2\<lparr>out := out st2 @ [Status_append ''${GREEN}SUCCESS${NORMAL}'']\<rparr>,
                           success @ [tc], fst fin)
                      | Some (SMTPError code msg) \<Rightarrow>
                          (st2\<lparr>out := out st2 @ [Status_append ''${RED}FAIL${NORMAL}'']\<rparr>,
                           success, fst fin)
                      | Some (Other x) \<Rightarrow>
                          (st2, success,
                           (case fst fin of Some y \<Rightarrow> Some y | None \<Rightarrow> Some (Other x)))))))"

text \<open>\<open>for i, test in enumerate(TESTS, 1)\<close>, from index \<open>i\<close> over the classes left.\<close>

fun run_loop ::
  "env \<Rightarrow> args \<Rightarrow> nat \<Rightarrow> cls list \<Rightarrow> state \<times> testcase list \<Rightarrow> state \<times> testcase list \<times> exn option" where
  "run_loop e a i [] acc = (fst acc, snd acc, None)"
| "run_loop e a i (t # ts) acc =
     (case loop_body e a i t acc of
        (st, success, Some x) \<Rightarrow> (st, success, Some x)
      | (st, success, None) \<Rightarrow> run_loop e a (Suc i) ts (st, success))"

text \<open>\<open>for s in success: helperlib.success("{}: {}".format(type(s).__name__, s))\<close>.\<close>

fun report :: "env \<Rightarrow> testcase list \<Rightarrow> state \<Rightarrow> state \<times> exn option" where
  "report e [] st = (st, None)"
| "report e (tc # rest) st =
     (case to_str e tc of
        Raises x \<Rightarrow> (st, Some (Other x))
      | Returns text \<Rightarrow>
          (case str_format ''{}: {}'' [PStr (class_name (cls tc)), PStr text] of
             Raises x \<Rightarrow> (st, Some (Other x))
           | Returns line \<Rightarrow> report e rest (st\<lparr>out := out st @ [Success line]\<rparr>)))"

text \<open>
  \<open>run_tests\<close>. Without \<open>helperlib\<close> the names \<open>helperlib\<close> and \<open>spinner\<close> are bound to a
  \<open>Printer\<close> object, whose class defines a plain method \<open>getattr\<close>: the first attribute
  looked up on it (\<open>info\<close> with a proxy, \<open>waitfor\<close> without) raises AttributeError.
\<close>

definition run_tests :: "env \<Rightarrow> args \<Rightarrow> state \<Rightarrow> state \<times> exn option" where
  "run_tests e a st0 =
     (let st1 = (if base_test a then st0\<lparr>TESTS := BaseTest # TESTS st0\<rparr> else st0) in
      case proxy_from_environ e of
        Raises x \<Rightarrow> (st1, Some (Other x))
      | Returns proxy \<Rightarrow>
          if \<not> have_helperlib e then (st1, Some (Other ''AttributeError''))
          else
            (case (case proxy of
                     None \<Rightarrow> Returns []
                   | Some (pa, pp) \<Rightarrow>
                       (case str_format (''Using Proxy {}:{}'' @ LF) [PStr pa, PInt pp] of
                          Raises x \<Rightarrow> Raises x
                        | Returns line \<Rightarrow> Returns [Info line])) of
               Raises x \<Rightarrow> (st1, Some (Other x))
             | Returns info \<Rightarrow>
                 (let st2 = st1\<lparr>out := out st1 @ info @ [Waitfor ''Testing'']\<rparr> in
                  case run_loop e a 1 (TESTS st2) (st2, []) of
                    (st3, success, Some x) \<Rightarrow> (st3, Some x)
                  | (st3, success, None) \<Rightarrow>
                      if success \<noteq> []
                      then report e success (st3\<lparr>out := out st3 @ [Succeeded]\<rparr>)
                      else (st3\<lparr>out := out st3 @ [Failed]\<rparr>, None))))"

section \<open>Example inputs\<close>

definition example_smtp :: smtp where
  "example_smtp = \<lparr>is_ssl = False, debuglevel = 0, p_address = None, p_port = None\<rparr>"

definition example_case :: "cls \<Rightarrow> testcase" where
  "example_case c =
     \<lparr>cls = c, host = ''mail.example'', port = PInt 0, local_addr = ''bob@mail.example'',
      remote_addr = ''user@example.com'', s = example_smtp\<rparr>"

text \<open>A server that answers every command with the reply \<open>(250, b'ok')\<close>.\<close>

definition accept_all :: "nat \<Rightarrow> cmd \<Rightarrow> (int \<times> string) outcome" where
  "accept_all i c = Returns (250, ''ok'')"

definition example_env :: env where
  "example_env =
     \<lparr>http_proxy = None, have_helperlib = True, py_int = (\<lambda>x. Raises ''ValueError''),
      gethostbyname = (\<lambda>h. Returns ''192.0.2.1''), server = accept_all\<rparr>"

text \<open>
  A session object with the proxy attributes set, a proxy that answers the \<open>CONNECT\<close>
  request with a status line and an empty line before the server's greeting comes through,
  and a proxy that closes the connection after its status line.
\<close>

definition proxy_smtp :: smtp where
  "proxy_smtp = \<lparr>is_ssl = False, debuglevel = 0, p_address = Some ''proxy.example'',
                  p_port = Some 3128\<rparr>"

definition truncated_proxy :: network where
  "truncated_proxy address = Returns (''HTTP/1.1 200 OK'' @ CRLF, EOF, None)"

definition answering_proxy :: network where
  "answering_proxy address =
     Returns (''HTTP/1.1 200 Connection established'' @ CRLF @ CRLF @ ''220 mail.example ESMTP''
              @ CRLF, EOF, None)"

text \<open>A call of \<open>run_tests\<close> with the baseline asked for.\<close>

definition example_args :: args where
  "example_args =
     \<lparr>arg_host = ''mail.example'', arg_local = ''bob@mail.example'',
      arg_remote = ''user@example.com'', arg_port = PInt 0, arg_ssl = False,
      arg_debug = False, base_test = True\<rparr>"

text \<open>
  Servers: one that refuses every recipient with 550; one that greets with 554 and has
  closed the connection by the time \<open>QUIT\<close> is sent, so that \<open>quit\<close> raises; one whose answer
  to the \<open>DATA\<close> command is not 354, so that smtplib's \<open>data\<close> raises SMTPDataError.
\<close>

definition reject_rcpt :: "nat \<Rightarrow> cmd \<Rightarrow> (int \<times> string) outcome" where
  "reject_rcpt i c =
     (case c of Rcpt x \<Rightarrow> Returns (550, ''relaying denied'') | _ \<Rightarrow> Returns (250, ''ok''))"

definition closing_server :: "nat \<Rightarrow> cmd \<Rightarrow> (int \<times> string) outcome" where
  "closing_server i c =
     (case c of
        Connect h p \<Rightarrow> Returns (554, ''no service'')
      | Quit \<Rightarrow> Raises ''SMTPServerDisconnected''
      | _ \<Rightarrow> Returns (250, ''ok''))"

definition data_refusing_server :: "nat \<Rightarrow> cmd \<Rightarrow> (int \<times> string) outcome" where
  "data_refusing_server i c =
     (case c of Data x \<Rightarrow> Raises ''SMTPDataError'' | _ \<Rightarrow> Returns (250, ''ok''))"

definition plain_args :: args where
  "plain_args = example_args\<lparr>base_test := False\<rparr>"

definition fresh_state :: state where
  "fresh_state = \<lparr>TESTS = TESTS_initial, out = [], calls = []\<rparr>"

text \<open>
  A target that refuses the connection: \<open>connect\<close> raises, and so does \<open>quit\<close>, which finds
  no socket to write to.
\<close>

definition unreachable_server :: "nat \<Rightarrow> cmd \<Rightarrow> (int \<times> string) outcome" where
  "unreachable_server i c =
     (case c of
        Connect h p \<Rightarrow> Raises ''ConnectionRefusedError''
      | Quit \<Rightarrow> Raises ''SMTPServerDisconnected''
      | _ \<Rightarrow> Returns (250, ''ok''))"

text \<open>A server that greets every connection with 554 and answers \<open>QUIT\<close>.\<close>

definition busy_server :: "nat \<Rightarrow> cmd \<Rightarrow> (int \<times> string) outcome" where
  "busy_server i c =
     (case c of Connect h p \<Rightarrow> Returns (554, ''no service'') | _ \<Rightarrow> Returns (250, ''ok''))"

section \<open>Notions used to state the properties of the runner\<close>

text \<open>A reply outside \<open>[500, 599]\<close>, and a reply inside it.\<close>

definition accepted :: "session \<Rightarrow> cmd \<Rightarrow> bool" where
  "accepted srv c =
     (case srv c of Returns (code, msg) \<Rightarrow> \<not> (500 \<le> code \<and> code \<le> 599) | Raises x \<Rightarrow> False)"

definition rejected :: "session \<Rightarrow> cmd \<Rightarrow> bool" where
  "rejected srv c =
     (case srv c of Returns (code, msg) \<Rightarrow> 500 \<le> code \<and> code \<le> 599 | Raises x \<Rightarrow> False)"

text \<open>
  The six SMTP steps of a test case in the order \<open>setup\<close> and \<open>test\<close> make them, for a
  derived sender and recipient.
\<close>

definition steps :: "testcase \<Rightarrow> string \<Rightarrow> string \<Rightarrow> cmd list" where
  "steps tc sender rcpt =
     [Connect (host tc) (port tc), Ehlo (get_ehlo_host tc), Rset, Mail sender, Rcpt rcpt,
      Data ''Open Mail Relay'']"

text \<open>The status line \<open>Name (i/len) \<close> and the lines \<open>spinner.status\<close> was given.\<close>

definition status_line :: "cls \<Rightarrow> nat \<Rightarrow> nat \<Rightarrow> string" where
  "status_line t i len =
     class_name t @ '' ('' @ str_int (int i) @ ''/'' @ str_int (int len) @ '') ''"

fun status_lines :: "display list \<Rightarrow> string list" where
  "status_lines [] = []"
| "status_lines (Status x # rest) = x # status_lines rest"
| "status_lines (d # rest) = status_lines rest"

text \<open>
  The progress sequence of a registry run to its end: its classes in order, numbered from
  \<open>first\<close>, each with the length of the whole registry.
\<close>

fun numbered :: "nat \<Rightarrow> nat \<Rightarrow> cls list \<Rightarrow> string list" where
  "numbered first len [] = []"
| "numbered first len (t # ts) = status_line t first len # numbered (Suc first) len ts"

section \<open>Facts about the string functions\<close>

lemma split_from_no_sep:
  "c \<notin> set x \<Longrightarrow> split_from [c] cur x = [cur @ x]"
  by (induction x arbitrary: cur) auto

lemma split_from_first:
  "c \<notin> set x \<Longrightarrow> split_from [c] cur (x @ c # y) = (cur @ x) # split_from [c] [] y"
  by (induction x arbitrary: cur) auto

lemma str_split_two:
  "c \<notin> set x \<Longrightarrow> c \<notin> set y \<Longrightarrow> str_split (x @ c # y) [c] = [x, y]"
  by (simp add: str_split_def split_from_first split_from_no_sep)

lemma split_from_nonempty: "split_from sep cur x \<noteq> []"
  by (induction sep cur x rule: split_from.induct) auto

lemma quoteaddr_eq: "quoteaddr a = Returns (''<'' @ a @ ''>'')"
  by (simp add: quoteaddr_def str_format_def emit_def)

lemma code_5xx: "(code::int) div 100 = 5 \<longleftrightarrow> 500 \<le> code \<and> code \<le> 599"
  by presburger

section \<open>The classification of replies\<close>

text \<open>
  C4. When the method called returns the reply \<open>(code, msg)\<close>, \<open>assertNo5xx\<close> raises
  \<open>SMTPError(code, msg)\<close> exactly when \<open>500 \<le> code \<le> 599\<close>, raises nothing else, and for
  every other code returns \<open>(code, msg)\<close> unchanged.
\<close>

theorem assertNo5xx_classifies:
  assumes "srv c = Returns (code, msg)"
  shows "(fst (assertNo5xx srv c) = Inl (SMTPError code msg) \<longleftrightarrow> 500 \<le> code \<and> code \<le> 599)
       \<and> ((\<exists>x. fst (assertNo5xx srv c) = Inl x) \<longleftrightarrow> 500 \<le> code \<and> code \<le> 599)
       \<and> (\<not> (500 \<le> code \<and> code \<le> 599) \<longrightarrow> fst (assertNo5xx srv c) = Inr (code, msg))"
  using assms by (simp add: assertNo5xx_def code_5xx)

theorem assertNo5xx_classifies_witness:
  "fst (assertNo5xx (\<lambda>c. Returns (550, ''no relay'')) (Rcpt ''user@example.com''))
     = Inl (SMTPError 550 ''no relay'')
   \<and> fst (assertNo5xx (\<lambda>c. Returns (451, ''try later'')) (Rcpt ''user@example.com''))
     = Inr (451, ''try later'')"
  using assertNo5xx_classifies [of "\<lambda>c. Returns (550, ''no relay'')" "Rcpt ''user@example.com''"
          550 "''no relay''"]
        assertNo5xx_classifies [of "\<lambda>c. Returns (451, ''try later'')" "Rcpt ''user@example.com''"
          451 "''try later''"]
  by simp

section \<open>Variant policies\<close>

text \<open>
  C8. For \<open>remote_addr = user@domain\<close> (no further \<open>@\<close> in either part), the recipient of
  \<open>BangPathTest\<close> is the list \<open>remote_addr.split('@')\<close> reversed and joined with \<open>!\<close>, which
  is \<open>domain!user\<close>; its sender is \<open>local_addr\<close> unchanged.
\<close>

theorem bangpath_rcpt_and_sender:
  assumes "cls tc = BangPathTest"
    and "remote_addr tc = user @ ''@'' @ domain"
    and "CHR ''@'' \<notin> set user" and "CHR ''@'' \<notin> set domain"
  shows "get_rcpt tc = Returns (str_join ''!'' (rev (str_split (remote_addr tc) ''@'')))
       \<and> get_rcpt tc = Returns (domain @ ''!'' @ user)
       \<and> get_sender e tc = Returns (local_addr tc)"
  using assms
  by (simp add: get_rcpt_def get_sender_def BangPathTest_get_rcpt_def
        LocalTest_get_sender_def str_split_two)

theorem bangpath_rcpt_and_sender_witness:
  "get_rcpt (example_case BangPathTest) = Returns ''example.com!user''
   \<and> get_sender example_env (example_case BangPathTest) = Returns ''bob@mail.example''"
  using bangpath_rcpt_and_sender [of "example_case BangPathTest" "''user''" "''example.com''"
          example_env, THEN conjunct2]
  by (simp add: example_case_def)

text \<open>
  C2. The sender of \<open>AddressTest\<close>: the template \<open>'{}@[@]'\<close> has one replacement field, so
  the resolved address, the second argument of \<open>format\<close>, never reaches the result. For
  \<open>local_addr = bob@mail.example\<close> and a target that resolves to \<open>192.0.2.1\<close> the sender is
  \<open>bob@[@]\<close>, not \<open>bob@[192.0.2.1]\<close>.
\<close>

lemma AddressTest_sender:
  "cls tc = AddressTest \<Longrightarrow> gethostbyname e (host tc) = Returns addr \<Longrightarrow>
   get_sender e tc = Returns (hd (str_split (local_addr tc) ''@'') @ ''@[@]'')"
  by (simp add: get_sender_def AddressTest_get_sender_def str_format_def emit_def)

theorem address_literal_sender_drops_ip:
  "gethostbyname example_env (host (example_case AddressTest)) = Returns ''192.0.2.1''
   \<and> get_sender example_env (example_case AddressTest) = Returns ''bob@[@]''
   \<and> get_sender example_env (example_case AddressTest) \<noteq> Returns ''bob@[192.0.2.1]''"
  by (simp add: get_sender_def AddressTest_get_sender_def str_format_def emit_def
        example_case_def example_env_def str_split_def)

section \<open>The proxy tunnel\<close>

lemma recvline_loop_line:
  "incoming sk = x @ CHR 0x0A # rest \<Longrightarrow> CHR 0x0A \<notin> set x \<Longrightarrow>
   recvline_loop sk line = Some (Returns (line @ x @ LF, sk\<lparr>incoming := rest\<rparr>))"
proof (induction x arbitrary: line sk)
  case Nil
  then show ?case
    by (subst recvline_loop.simps) (simp add: recv1_def LF_def)
next
  case (Cons c x)
  then have "c \<noteq> CHR 0x0A" and "CHR 0x0A \<notin> set x" by auto
  with Cons.prems Cons.IH [of "sk\<lparr>incoming := x @ CHR 0x0A # rest\<rparr>" "line @ [c]"] show ?case
    by (subst recvline_loop.simps) (simp add: recv1_def LF_def)
qed

lemma recvline_loop_fails:
  "incoming sk = x \<Longrightarrow> at_end sk = Fails err \<Longrightarrow> CHR 0x0A \<notin> set x \<Longrightarrow>
   recvline_loop sk line = Some (Raises err)"
proof (induction x arbitrary: line sk)
  case Nil
  then show ?case
    by (subst recvline_loop.simps) (simp add: recv1_def LF_def)
next
  case (Cons c x)
  then have "c \<noteq> CHR 0x0A" and "CHR 0x0A \<notin> set x" by auto
  with Cons.prems Cons.IH [of "sk\<lparr>incoming := x\<rparr>" "line @ [c]"] show ?case
    by (subst recvline_loop.simps) (simp add: recv1_def LF_def)
qed

lemma recvline_loop_Some_cases:
  assumes "recvline_loop sk line = Some r"
  shows "CHR 0x0A \<in> set (incoming sk) \<or> at_end sk \<noteq> EOF"
proof (rule recvline_loop.raw_induct
    [where P = "\<lambda>k l y. CHR 0x0A \<in> set (incoming k) \<or> at_end k \<noteq> EOF", OF _ assms])
  fix f k l y
  assume IH: "\<And>k l y. f k l = Some y \<Longrightarrow> CHR 0x0A \<in> set (incoming k) \<or> at_end k \<noteq> EOF"
    and step: "(case recv1 k of
        Raises e \<Rightarrow> Some (Raises e)
      | Returns (i, sk') \<Rightarrow>
          if (if i = LF then (1::nat) else 0) = 1
          then Some (Returns (l @ i, sk'))
          else f sk' (l @ i)) = Some y"
  show "CHR 0x0A \<in> set (incoming k) \<or> at_end k \<noteq> EOF"
  proof (cases "incoming k")
    case Nil
    show ?thesis
    proof (cases "at_end k")
      case EOF
      with Nil step have "f k (l @ []) = Some y"
        by (simp add: recv1_def LF_def)
      from IH [OF this] show ?thesis .
    next
      case (Fails e)
      then show ?thesis by simp
    qed
  next
    case (Cons b bs)
    show ?thesis
    proof (cases "b = CHR 0x0A")
      case True
      with Cons show ?thesis by simp
    next
      case False
      with Cons step have "f (k\<lparr>incoming := bs\<rparr>) (l @ [b]) = Some y"
        by (simp add: recv1_def LF_def)
      from IH [OF this] Cons show ?thesis by auto
    qed
  qed
qed

lemma recvline_loop_eof:
  "CHR 0x0A \<notin> set (incoming sk) \<Longrightarrow> at_end sk = EOF \<Longrightarrow> recvline_loop sk line = None"
  using recvline_loop_Some_cases [of sk line] by (cases "recvline_loop sk line") auto

lemma recvline_line:
  "incoming sk = x @ CHR 0x0A # rest \<Longrightarrow> CHR 0x0A \<notin> set x \<Longrightarrow>
   recvline sk = Some (Returns (x @ LF, sk\<lparr>incoming := rest\<rparr>))"
  using recvline_loop_line [of sk x rest "[]"] by (simp add: recvline_def)

lemma recvline_eof:
  "CHR 0x0A \<notin> set (incoming sk) \<Longrightarrow> at_end sk = EOF \<Longrightarrow> recvline sk = None"
  by (simp add: recvline_def recvline_loop_eof)

lemma recvline_fails:
  "CHR 0x0A \<notin> set (incoming sk) \<Longrightarrow> at_end sk = Fails err \<Longrightarrow>
   recvline sk = Some (Raises err)"
  by (simp add: recvline_def recvline_loop_fails)

lemma discard_two_lines:
  assumes "incoming sk = l1 @ CHR 0x0A # l2 @ CHR 0x0A # rest"
    and "CHR 0x0A \<notin> set l1" and "CHR 0x0A \<notin> set l2"
  shows "discard_lines 2 sk = Some (Returns (sk\<lparr>incoming := rest\<rparr>))"
proof -
  have first: "recvline sk = Some (Returns (l1 @ LF, sk\<lparr>incoming := l2 @ CHR 0x0A # rest\<rparr>))"
    using assms by (simp add: recvline_line)
  have second: "recvline (sk\<lparr>incoming := l2 @ CHR 0x0A # rest\<rparr>)
                  = Some (Returns (l2 @ LF, sk\<lparr>incoming := rest\<rparr>))"
    using assms recvline_line [of "sk\<lparr>incoming := l2 @ CHR 0x0A # rest\<rparr>" l2 rest] by simp
  have "discard_lines 2 sk = discard_lines (Suc (Suc 0)) sk"
    by (simp add: numeral_2_eq_2)
  also have "\<dots> = Some (Returns (sk\<lparr>incoming := rest\<rparr>))"
    by (simp add: first second)
  finally show ?thesis .
qed

lemma connect_request:
  "str_format (''CONNECT {0}:{1} HTTP/1.1'' @ CRLF @ CRLF) [a, b]
     = Returns (''CONNECT '' @ py_str a @ '':'' @ py_str b @ '' HTTP/1.1'' @ CRLF @ CRLF)"
  by (simp add: str_format_def emit_def digit_val_def CRLF_def)

text \<open>
  C1. With the proxy attributes set, and a proxy that delivers two lines (each ended by a
  line feed) followed by \<open>rest\<close>, \<open>_get_socket\<close>, called as smtplib calls it with the
  target host first and the target port second, returns a socket connected to the proxy
  on which exactly the request \<open>CONNECT host:port HTTP/1.1\<close>, CRLF, CRLF has been sent
  and nothing else, and from which exactly the two lines have been read: what the peer
  delivers next is \<open>rest\<close>.
\<close>

theorem proxy_connect_handshake:
  assumes "p_address self = Some pa" and "p_port self = Some pp"
    and "net (PStr pa, PInt pp) = Returns (l1 @ LF @ l2 @ LF @ rest, fin, None)"
    and "CHR 0x0A \<notin> set l1" and "CHR 0x0A \<notin> set l2"
  shows "get_socket net self target_host target_port timeout
           = Some (Returns \<lparr>peer = (PStr pa, PInt pp), incoming = rest, at_end = fin,
                     send_error = None,
                     sent = ''CONNECT '' @ py_str target_host @ '':'' @ py_str target_port
                            @ '' HTTP/1.1'' @ CRLF @ CRLF\<rparr>)"
proof -
  let ?req = "''CONNECT '' @ py_str target_host @ '':'' @ py_str target_port
              @ '' HTTP/1.1'' @ CRLF @ CRLF"
  let ?sk = "\<lparr>peer = (PStr pa, PInt pp), incoming = l1 @ CHR 0x0A # l2 @ CHR 0x0A # rest,
             at_end = fin, send_error = None, sent = ?req\<rparr>"
  have conn: "create_connection net (PStr pa, PInt pp) timeout
                = Returns \<lparr>peer = (PStr pa, PInt pp), incoming = l1 @ CHR 0x0A # l2 @ CHR 0x0A # rest,
                           at_end = fin, send_error = None, sent = []\<rparr>"
    using assms(3) by (simp add: create_connection_def LF_def)
  have req: "str_format (''CONNECT {0}:{1} HTTP/1.1'' @ CRLF @ CRLF) [target_host, target_port]
               = Returns ?req"
    by (rule connect_request)
  have snd: "sendall \<lparr>peer = (PStr pa, PInt pp), incoming = l1 @ CHR 0x0A # l2 @ CHR 0x0A # rest,
                      at_end = fin, send_error = None, sent = []\<rparr> ?req = Returns ?sk"
    by (simp add: sendall_def)
  have "discard_lines 2 ?sk = Some (Returns (?sk\<lparr>incoming := rest\<rparr>))"
    using assms(4,5) discard_two_lines [of ?sk l1 l2 rest] by simp
  then have disc: "discard_lines 2 ?sk
      = Some (Returns \<lparr>peer = (PStr pa, PInt pp), incoming = rest, at_end = fin,
                send_error = None, sent = ?req\<rparr>)"
    by simp
  show ?thesis
    unfolding get_socket_def
    by (simp only: assms(1,2) conn req snd disc option.case prod.case outcome.case)
qed

theorem proxy_connect_handshake_witness:
  "get_socket answering_proxy proxy_smtp (PStr ''mail.example'') (PInt 25) ()
     = Some (Returns \<lparr>peer = (PStr ''proxy.example'', PInt 3128),
               incoming = ''220 mail.example ESMTP'' @ CRLF, at_end = EOF, send_error = None,
               sent = ''CONNECT mail.example:25 HTTP/1.1'' @ CRLF @ CRLF\<rparr>)"
  using proxy_connect_handshake [where self = proxy_smtp and pa = "''proxy.example''"
          and pp = 3128 and net = answering_proxy
          and ?l1.0 = "''HTTP/1.1 200 Connection established'' @ [CHR 0x0D]"
          and ?l2.0 = "[CHR 0x0D]" and rest = "''220 mail.example ESMTP'' @ CRLF" and fin = EOF
          and target_host = "PStr ''mail.example''" and target_port = "PInt 25"
          and timeout = "()"]
  by (simp add: proxy_smtp_def answering_proxy_def CRLF_def LF_def str_int_def str_nat.simps)

lemma discard_after_one_line_eof:
  assumes "incoming sk = l1 @ CHR 0x0A # l2" and "at_end sk = EOF"
    and "CHR 0x0A \<notin> set l1" and "CHR 0x0A \<notin> set l2"
  shows "discard_lines 2 sk = None"
proof -
  have first: "recvline sk = Some (Returns (l1 @ LF, sk\<lparr>incoming := l2\<rparr>))"
    using assms by (simp add: recvline_line)
  have second: "recvline (sk\<lparr>incoming := l2\<rparr>) = None"
    using assms by (simp add: recvline_eof)
  have "discard_lines 2 sk = discard_lines (Suc (Suc 0)) sk"
    by (simp add: numeral_2_eq_2)
  also have "\<dots> = None"
    by (simp add: first second)
  finally show ?thesis .
qed

lemma discard_no_line_eof:
  assumes "at_end sk = EOF" and "CHR 0x0A \<notin> set (incoming sk)"
  shows "discard_lines 2 sk = None"
proof -
  have "discard_lines 2 sk = discard_lines (Suc (Suc 0)) sk"
    by (simp add: numeral_2_eq_2)
  also have "\<dots> = None"
    using assms by (simp add: recvline_eof)
  finally show ?thesis .
qed

lemma get_socket_one_line_eof:
  assumes "p_address self = Some pa" and "p_port self = Some pp"
    and "net (PStr pa, PInt pp) = Returns (l1 @ LF @ l2, EOF, None)"
    and "CHR 0x0A \<notin> set l1" and "CHR 0x0A \<notin> set l2"
  shows "get_socket net self target_host target_port timeout = None"
proof -
  let ?req = "''CONNECT '' @ py_str target_host @ '':'' @ py_str target_port
              @ '' HTTP/1.1'' @ CRLF @ CRLF"
  let ?sk = "\<lparr>peer = (PStr pa, PInt pp), incoming = l1 @ CHR 0x0A # l2,
             at_end = EOF, send_error = None, sent = ?req\<rparr>"
  have conn: "create_connection net (PStr pa, PInt pp) timeout
                = Returns \<lparr>peer = (PStr pa, PInt pp), incoming = l1 @ CHR 0x0A # l2,
                           at_end = EOF, send_error = None, sent = []\<rparr>"
    using assms(3) by (simp add: create_connection_def LF_def)
  have req: "str_format (''CONNECT {0}:{1} HTTP/1.1'' @ CRLF @ CRLF) [target_host, target_port]
               = Returns ?req"
    by (rule connect_request)
  have snd: "sendall \<lparr>peer = (PStr pa, PInt pp), incoming = l1 @ CHR 0x0A # l2,
                      at_end = EOF, send_error = None, sent = []\<rparr> ?req = Returns ?sk"
    by (simp add: sendall_def)
  have disc: "discard_lines 2 ?sk = None"
    using assms(4,5) discard_after_one_line_eof [of ?sk l1 l2] by simp
  show ?thesis
    unfolding get_socket_def
    by (simp only: assms(1,2) conn req snd disc option.case prod.case outcome.case)
qed

lemma get_socket_no_line_eof:
  assumes "p_address self = Some pa" and "p_port self = Some pp"
    and "net (PStr pa, PInt pp) = Returns (l1, EOF, None)"
    and "CHR 0x0A \<notin> set l1"
  shows "get_socket net self target_host target_port timeout = None"
proof -
  let ?req = "''CONNECT '' @ py_str target_host @ '':'' @ py_str target_port
              @ '' HTTP/1.1'' @ CRLF @ CRLF"
  let ?sk = "\<lparr>peer = (PStr pa, PInt pp), incoming = l1,
             at_end = EOF, send_error = None, sent = ?req\<rparr>"
  have conn: "create_connection net (PStr pa, PInt pp) timeout
                = Returns \<lparr>peer = (PStr pa, PInt pp), incoming = l1,
                           at_end = EOF, send_error = None, sent = []\<rparr>"
    using assms(3) by (simp add: create_connection_def)
  have req: "str_format (''CONNECT {0}:{1} HTTP/1.1'' @ CRLF @ CRLF) [target_host, target_port]
               = Returns ?req"
    by (rule connect_request)
  have snd: "sendall \<lparr>peer = (PStr pa, PInt pp), incoming = l1,
                      at_end = EOF, send_error = None, sent = []\<rparr> ?req = Returns ?sk"
    by (simp add: sendall_def)
  have disc: "discard_lines 2 ?sk = None"
    using assms(4) discard_no_line_eof [of ?sk] by simp
  show ?thesis
    unfolding get_socket_def
    by (simp only: assms(1,2) conn req snd disc option.case prod.case outcome.case)
qed

lemma get_socket_refused:
  assumes "p_address self = Some pa" and "p_port self = Some pp"
    and "net (PStr pa, PInt pp) = Raises err"
  shows "get_socket net self target_host target_port timeout = Some (Raises err)"
  using assms by (simp add: get_socket_def create_connection_def)

text \<open>
  C7. A proxy that sends its status line and then closes the connection: \<open>recv\<close> returns
  \<open>b''\<close> from then on, which is never a line feed, so the loop of \<open>recvline\<close> does not end
  and \<open>_get_socket\<close> neither returns nor raises.
\<close>

theorem proxy_truncated_response_hangs:
  "get_socket truncated_proxy proxy_smtp (PStr ''mail.example'') (PInt 25) () = None"
  using get_socket_one_line_eof [where self = proxy_smtp and pa = "''proxy.example''"
          and pp = 3128 and net = truncated_proxy
          and ?l1.0 = "''HTTP/1.1 200 OK'' @ [CHR 0x0D]" and ?l2.0 = "[]"
          and target_host = "PStr ''mail.example''" and target_port = "PInt 25"
          and timeout = "()"]
  by (simp add: proxy_smtp_def truncated_proxy_def CRLF_def LF_def)

section \<open>The runner\<close>

lemma status_format:
  "str_format ''{} ({}/{}) '' [PStr n, PInt (int i), PInt (int k)]
     = Returns (n @ '' ('' @ str_int (int i) @ ''/'' @ str_int (int k) @ '') '')"
  by (simp add: str_format_def emit_def)

subsection \<open>The registry\<close>

lemma loop_body_TESTS: "TESTS (fst (loop_body e a i t (st, success))) = TESTS st"
  by (simp add: loop_body_def status_format Let_def split: outcome.splits option.splits exn.splits)

lemma run_loop_TESTS: "TESTS (fst (run_loop e a i ts (st, success))) = TESTS st"
proof (induction ts arbitrary: i st success)
  case Nil
  show ?case by simp
next
  case (Cons t ts)
  show ?case
  proof (cases "loop_body e a i t (st, success)")
    case (fields st' success' r)
    with loop_body_TESTS [of e a i t st success] have "TESTS st' = TESTS st" by simp
    with fields Cons.IH [of "Suc i" st' success'] show ?thesis
      by (cases r) simp_all
  qed
qed

lemma report_TESTS: "TESTS (fst (report e succ st)) = TESTS st"
  by (induction succ arbitrary: st) (simp_all split: outcome.splits)

lemma run_tests_TESTS:
  "TESTS (fst (run_tests e a st)) = (if base_test a then BaseTest # TESTS st else TESTS st)"
proof -
  define st1 where "st1 = (if base_test a then st\<lparr>TESTS := BaseTest # TESTS st\<rparr> else st)"
  have st1: "TESTS st1 = (if base_test a then BaseTest # TESTS st else TESTS st)"
    by (simp add: st1_def)
  have after_loop: "TESTS (fst (case run_loop e a 1 ts (st1\<lparr>out := x\<rparr>, []) of
            (st3, success, Some y) \<Rightarrow> (st3, Some y)
          | (st3, success, None) \<Rightarrow>
              if success \<noteq> []
              then report e success (st3\<lparr>out := out st3 @ [Succeeded]\<rparr>)
              else (st3\<lparr>out := out st3 @ [Failed]\<rparr>, None))) = TESTS st1" for ts x
  proof (cases "run_loop e a 1 ts (st1\<lparr>out := x\<rparr>, [])")
    case (fields st3 success r)
    with run_loop_TESTS [of e a 1 ts "st1\<lparr>out := x\<rparr>" "[]"] have "TESTS st3 = TESTS st1"
      by simp
    with fields show ?thesis
      by (cases r) (simp_all add: report_TESTS)
  qed
  have "TESTS (fst (run_tests e a st)) = TESTS st1"
  proof (cases "proxy_from_environ e")
    case (Raises x)
    then show ?thesis
      by (simp add: run_tests_def Let_def st1_def)
  next
    case (Returns proxy)
    show ?thesis
    proof (cases "have_helperlib e")
      case False
      with Returns show ?thesis
        by (simp add: run_tests_def Let_def st1_def)
    next
      case True
      show ?thesis
      proof (cases proxy)
        case None
        with Returns True after_loop show ?thesis
          unfolding run_tests_def Let_def st1_def [symmetric] by simp
      next
        case (Some pr)
        obtain pa pp where pr: "pr = (pa, pp)" by (cases pr)
        show ?thesis
        proof (cases "str_format (''Using Proxy {}:{}'' @ LF) [PStr pa, PInt pp]")
          case (Raises x)
          with Returns True Some pr show ?thesis
            unfolding run_tests_def Let_def st1_def [symmetric] by simp
        next
          case Returns2: (Returns line)
          with Returns True Some pr after_loop show ?thesis
            unfolding run_tests_def Let_def st1_def [symmetric] by simp
        qed
      qed
    qed
  qed
  with st1 show ?thesis by simp
qed

text \<open>
  C10. A call of \<open>run_tests\<close> with \<open>base_test\<close> set leaves the registry one element longer,
  with \<open>BaseTest\<close> at position 0, however the call ends; nothing removes it, so a second
  such call on the state the first one left prepends a second \<open>BaseTest\<close>.
\<close>

theorem base_test_grows_registry:
  assumes "base_test a" and "base_test a'"
  shows "TESTS (fst (run_tests e a st)) = BaseTest # TESTS st
       \<and> length (TESTS (fst (run_tests e a st))) = Suc (length (TESTS st))
       \<and> TESTS (fst (run_tests e' a' (fst (run_tests e a st)))) = BaseTest # BaseTest # TESTS st"
  using assms by (simp add: run_tests_TESTS)

theorem base_test_grows_registry_witness:
  "TESTS (fst (run_tests example_env example_args
            (fst (run_tests example_env example_args
                   \<lparr>TESTS = TESTS_initial, out = [], calls = []\<rparr>))))
     = BaseTest # BaseTest # TESTS_initial"
  using base_test_grows_registry [of example_args example_args example_env
          "\<lparr>TESTS = TESTS_initial, out = [], calls = []\<rparr>" example_env]
  by (simp add: example_args_def)

subsection \<open>One test case\<close>

lemma step_accepted: "accepted srv c \<Longrightarrow> step srv c = (None, [c])"
  by (auto simp: accepted_def step_def assertNo5xx_def code_5xx split: outcome.splits)

lemma step_rejected:
  "srv c = Returns (code, msg) \<Longrightarrow> 500 \<le> code \<Longrightarrow> code \<le> 599 \<Longrightarrow>
   step srv c = (Some (SMTPError code msg), [c])"
  by (simp add: step_def assertNo5xx_def code_5xx)

lemma step_raises: "srv c = Raises x \<Longrightarrow> step srv c = (Some (Other x), [c])"
  by (simp add: step_def assertNo5xx_def)

lemma seq_None: "seq (None, xs) b = (fst b, xs @ snd b)"
  by (simp add: seq_def)

lemma seq_Some: "seq (Some x, xs) b = (Some x, xs)"
  by (simp add: seq_def)

lemma get_rcpt_returns: "\<exists>ra. get_rcpt tc = Returns ra"
  by (cases "cls tc")
     (simp_all add: get_rcpt_def SourceRouting_get_rcpt_def SourceRouting2_get_rcpt_def
        SourceRoutingPercent_get_rcpt_def str_format_def emit_def)

lemma all_steps_accepted:
  assumes "get_sender e tc = Returns sa" and "get_rcpt tc = Returns ra"
    and "list_all (accepted srv) (steps tc sa ra)"
  shows "seq (setup_case srv tc) (test e srv tc) = (None, steps tc sa ra)"
  using assms
  by (simp add: steps_def setup_case_def test_def with_arg_def step_accepted seq_None)

lemma rejected_at:
  assumes "k < 6" and "get_rcpt tc = Returns ra"
    and "3 \<le> k \<longrightarrow> get_sender e tc = Returns sa"
    and "list_all (accepted srv) (take k (steps tc sa ra))"
    and "srv (steps tc sa ra ! k) = Returns (code, msg)" and "500 \<le> code" and "code \<le> 599"
  shows "seq (setup_case srv tc) (test e srv tc)
           = (Some (SMTPError code msg), take (Suc k) (steps tc sa ra))"
proof -
  from assms(1) consider "k = 0" | "k = 1" | "k = 2" | "k = 3" | "k = 4" | "k = 5"
    by linarith
  then show ?thesis
  proof cases
    case 1
    with assms show ?thesis
      by (simp add: steps_def setup_case_def test_def with_arg_def step_accepted step_rejected
            seq_None seq_Some)
  next
    case 2
    with assms show ?thesis
      by (simp add: steps_def setup_case_def test_def with_arg_def step_accepted step_rejected
            seq_None seq_Some)
  next
    case 3
    with assms show ?thesis
      by (simp add: steps_def setup_case_def test_def with_arg_def step_accepted step_rejected
            seq_None seq_Some numeral_2_eq_2)
  next
    case 4
    with assms show ?thesis
      by (simp add: steps_def setup_case_def test_def with_arg_def step_accepted step_rejected
            seq_None seq_Some numeral_3_eq_3)
  next
    case 5
    with assms show ?thesis
      by (simp add: steps_def setup_case_def test_def with_arg_def step_accepted step_rejected
            seq_None seq_Some eval_nat_numeral)
  next
    case 6
    with assms show ?thesis
      by (simp add: steps_def setup_case_def test_def with_arg_def step_accepted step_rejected
            seq_None seq_Some eval_nat_numeral)
  qed
qed

subsection \<open>Addresses on the wire\<close>

lemma is_ascii_append [simp]: "is_ascii (x @ y) \<longleftrightarrow> is_ascii x \<and> is_ascii y"
  by (simp add: is_ascii_def)

lemma is_ascii_Cons: "is_ascii (c # x) \<longleftrightarrow> (of_char c :: nat) < 128 \<and> is_ascii x"
  by (simp add: is_ascii_def)

lemma is_ascii_Nil [simp]: "is_ascii []"
  by (simp add: is_ascii_def)

lemma mail_wire_eq:
  "mail_wire a =
     (if CHR 0x0D \<in> set a \<or> CHR 0x0A \<in> set a then Raises ''ValueError''
      else if \<not> is_ascii a then Raises ''UnicodeEncodeError''
      else Returns (''mail FROM:<'' @ a @ ''>'' @ CRLF))"
  by (simp add: mail_wire_def quoteaddr_eq putcmd_def send_command_def CRLF_def is_ascii_Cons)

lemma rcpt_wire_eq:
  "rcpt_wire a =
     (if CHR 0x0D \<in> set a \<or> CHR 0x0A \<in> set a then Raises ''ValueError''
      else if \<not> is_ascii a then Raises ''UnicodeEncodeError''
      else Returns (''rcpt TO:<'' @ a @ ''>'' @ CRLF))"
  by (simp add: rcpt_wire_def quoteaddr_eq putcmd_def send_command_def CRLF_def is_ascii_Cons)

lemma snd_step: "snd (step srv c) = [c]"
  by (simp add: step_def assertNo5xx_def split: outcome.splits prod.splits)

lemma test_calls:
  assumes "get_sender e tc = Returns sender" and "get_rcpt tc = Returns rcpt"
  shows "hd (snd (test e srv tc)) = Mail sender"
    and "accepted srv (Mail sender) \<Longrightarrow> take 2 (snd (test e srv tc)) = [Mail sender, Rcpt rcpt]"
proof -
  obtain r where first: "step srv (Mail sender) = (r, [Mail sender])"
    using snd_step [of srv "Mail sender"] by (cases "step srv (Mail sender)") simp
  show "hd (snd (test e srv tc)) = Mail sender"
    using assms first by (simp add: test_def with_arg_def seq_def split: option.splits)
  assume "accepted srv (Mail sender)"
  then have ok: "step srv (Mail sender) = (None, [Mail sender])"
    by (rule step_accepted)
  obtain r' where second: "step srv (Rcpt rcpt) = (r', [Rcpt rcpt])"
    using snd_step [of srv "Rcpt rcpt"] by (cases "step srv (Rcpt rcpt)") simp
  show "take 2 (snd (test e srv tc)) = [Mail sender, Rcpt rcpt]"
    using assms ok second by (simp add: test_def with_arg_def seq_def split: option.splits)
qed

text \<open>
  C3, as stated, fails: the address is not sent as derived, it is wrapped in angle
  brackets. The bang-path recipient \<open>example.com!user\<close> goes out as
  \<open>rcpt TO:<example.com!user>\<close>.
\<close>

theorem address_field_counterexample:
  "get_rcpt (example_case BangPathTest) = Returns ''example.com!user''
   \<and> quoteaddr ''example.com!user'' = Returns ''<example.com!user>''
   \<and> quoteaddr ''example.com!user'' \<noteq> Returns ''example.com!user''
   \<and> rcpt_wire ''example.com!user'' = Returns (''rcpt TO:<example.com!user>'' @ CRLF)"
  by (simp add: get_rcpt_def BangPathTest_get_rcpt_def example_case_def str_split_def
        quoteaddr_eq rcpt_wire_eq is_ascii_Cons CRLF_def)

text \<open>
  C3, amended. When \<open>get_sender\<close> and \<open>get_rcpt\<close> return, \<open>test\<close> passes the sender it
  derived to \<open>mail\<close> as its first call and, once that call is accepted, the recipient it
  derived to \<open>rcpt\<close>, both unchanged. For an ASCII address without carriage return and
  line feed the library sends \<open>mail FROM:<address>\<close> and \<open>rcpt TO:<address>\<close>, each
  followed by CRLF: the address between one \<open><\<close> and one \<open>>\<close>, with no other change. For
  an address that holds a carriage return or a line feed the call raises ValueError, and
  for one that holds a character beyond ASCII it raises UnicodeEncodeError; in both cases
  nothing is sent and the server is not asked.
\<close>

theorem address_field_verbatim_in_brackets:
  assumes "get_sender e tc = Returns sender" and "get_rcpt tc = Returns rcpt"
  shows "hd (snd (test e (smtp_call srv) tc)) = Mail sender
       \<and> (accepted (smtp_call srv) (Mail sender) \<longrightarrow>
            take 2 (snd (test e (smtp_call srv) tc)) = [Mail sender, Rcpt rcpt])
       \<and> smtp_call srv (Mail sender)
           = (case mail_wire sender of Raises x \<Rightarrow> Raises x | Returns line \<Rightarrow> srv (Mail sender))
       \<and> smtp_call srv (Rcpt rcpt)
           = (case rcpt_wire rcpt of Raises x \<Rightarrow> Raises x | Returns line \<Rightarrow> srv (Rcpt rcpt))
       \<and> mail_wire sender =
           (if CHR 0x0D \<in> set sender \<or> CHR 0x0A \<in> set sender then Raises ''ValueError''
            else if \<not> is_ascii sender then Raises ''UnicodeEncodeError''
            else Returns (''mail FROM:<'' @ sender @ ''>'' @ CRLF))
       \<and> rcpt_wire rcpt =
           (if CHR 0x0D \<in> set rcpt \<or> CHR 0x0A \<in> set rcpt then Raises ''ValueError''
            else if \<not> is_ascii rcpt then Raises ''UnicodeEncodeError''
            else Returns (''rcpt TO:<'' @ rcpt @ ''>'' @ CRLF))"
  using test_calls [OF assms, of "smtp_call srv"]
  by (simp add: smtp_call_def mail_wire_eq [of sender] rcpt_wire_eq [of rcpt])

theorem address_field_verbatim_in_brackets_witness:
  "take 2 (snd (test example_env (session_of example_env 1) (example_case PercentRemoteTest)))
     = [Mail ''bob@mail.example'', Rcpt ''user%example.com'']
   \<and> mail_wire ''bob@mail.example'' = Returns (''mail FROM:<bob@mail.example>'' @ CRLF)
   \<and> rcpt_wire ''user%example.com'' = Returns (''rcpt TO:<user%example.com>'' @ CRLF)
   \<and> mail_wire (CHR 0xE9 # ''@mail.example'') = Raises ''UnicodeEncodeError''"
proof -
  have sender: "get_sender example_env (example_case PercentRemoteTest) = Returns ''bob@mail.example''"
    and rcpt: "get_rcpt (example_case PercentRemoteTest) = Returns ''user%example.com''"
    by (simp_all add: get_sender_def get_rcpt_def LocalTest_get_sender_def
          PercentRemoteTest_get_rcpt_def str_replace_def example_case_def)
  have sender': "get_sender example_env
                   ((example_case LocalTest)\<lparr>local_addr := CHR 0xE9 # ''@mail.example''\<rparr>)
                 = Returns (CHR 0xE9 # ''@mail.example'')"
    by (simp add: get_sender_def LocalTest_get_sender_def example_case_def)
  have rcpt': "get_rcpt ((example_case LocalTest)\<lparr>local_addr := CHR 0xE9 # ''@mail.example''\<rparr>)
                 = Returns ''user@example.com''"
    by (simp add: get_rcpt_def DefaultTest_get_rcpt_def DefaultTest_get_sender_def
          example_case_def)
  from address_field_verbatim_in_brackets [OF sender rcpt, of "server example_env 1"]
  have "take 2 (snd (test example_env (session_of example_env 1) (example_case PercentRemoteTest)))
     = [Mail ''bob@mail.example'', Rcpt ''user%example.com'']
   \<and> mail_wire ''bob@mail.example'' = Returns (''mail FROM:<bob@mail.example>'' @ CRLF)
   \<and> rcpt_wire ''user%example.com'' = Returns (''rcpt TO:<user%example.com>'' @ CRLF)"
    by (simp add: session_of_def accepted_def example_env_def accept_all_def is_ascii_Cons)
  moreover
  from address_field_verbatim_in_brackets [OF sender' rcpt', of "server example_env 1"]
  have "mail_wire (CHR 0xE9 # ''@mail.example'') = Raises ''UnicodeEncodeError''"
    by (simp add: is_ascii_Cons)
  ultimately show ?thesis by simp
qed

subsection \<open>The loop over the registry\<close>

lemma teardown_returns: "srv Quit = Returns q \<Longrightarrow> teardown srv = (None, [Quit, Close])"
  by (simp add: teardown_def)

lemma teardown_raises: "srv Quit = Raises x \<Longrightarrow> teardown srv = (Some (Other x), [Quit])"
  by (simp add: teardown_def)

lemma loop_body_unfold:
  assumes "init e t (arg_host a) (arg_local a) (arg_remote a) (arg_port a) (arg_ssl a) (arg_debug a)
             = Returns tc"
    and "seq (setup_case (session_of e i) tc) (test e (session_of e i) tc) = (r, cs)"
    and "teardown (session_of e i) = (r', cs')"
  shows "loop_body e a i t (st, success) =
           (case r of
              None \<Rightarrow>
                (st\<lparr>out := out st @ [Status (status_line t i (length (TESTS st))),
                                      Status_append ''${GREEN}SUCCESS${NORMAL}''],
                    calls := calls st @ map (Pair i) (cs @ cs')\<rparr>, success @ [tc], r')
            | Some (SMTPError code msg) \<Rightarrow>
                (st\<lparr>out := out st @ [Status (status_line t i (length (TESTS st))),
                                      Status_append ''${RED}FAIL${NORMAL}''],
                    calls := calls st @ map (Pair i) (cs @ cs')\<rparr>, success, r')
            | Some (Other x) \<Rightarrow>
                (st\<lparr>out := out st @ [Status (status_line t i (length (TESTS st)))],
                    calls := calls st @ map (Pair i) (cs @ cs')\<rparr>, success,
                 (case r' of Some y \<Rightarrow> Some y | None \<Rightarrow> Some (Other x))))"
  using assms
  by (simp add: loop_body_def status_format status_line_def Let_def
        split: option.splits exn.splits)

text \<open>
  C5, amended. For the \<open>i\<close>-th class \<open>t\<close> of the loop, where a step returns a code when the
  method of the session object returns it (rather than raises): when each of the six
  steps returns a code outside \<open>[500, 599]\<close>, the status is SUCCESS and the test case is
  appended to \<open>success\<close>; when the steps before the \<open>k\<close>-th are accepted and the \<open>k\<close>-th
  returns a code in \<open>[500, 599]\<close>, the status is FAIL, \<open>success\<close> is unchanged, and the calls
  made are the steps up to the \<open>k\<close>-th followed by those of \<open>teardown\<close>, with no later step.
  In both cases, when \<open>quit\<close> returns in \<open>teardown\<close> the loop goes on with the next class at
  index \<open>i + 1\<close>, and when \<open>quit\<close> raises, the verdict stays recorded and the loop ends
  there with the exception of \<open>quit\<close>.
\<close>

theorem verdict_recorded_and_next_variant_runs:
  assumes "init e t (arg_host a) (arg_local a) (arg_remote a) (arg_port a) (arg_ssl a) (arg_debug a)
             = Returns tc"
    and "get_rcpt tc = Returns ra"
  shows
    "let sess = session_of e i;
         cmds = steps tc sa ra;
         fin = teardown sess;
         LB = loop_body e a i t (st, success);
         all_accepted = (get_sender e tc = Returns sa \<and> list_all (accepted sess) cmds);
         rejected_here = (k < 6 \<and> (3 \<le> k \<longrightarrow> get_sender e tc = Returns sa)
                          \<and> list_all (accepted sess) (take k cmds) \<and> rejected sess (cmds ! k))
     in (all_accepted \<longrightarrow>
           LB = (st\<lparr>out := out st @ [Status (status_line t i (length (TESTS st))),
                                      Status_append ''${GREEN}SUCCESS${NORMAL}''],
                    calls := calls st @ map (Pair i) (cmds @ snd fin)\<rparr>,
                 success @ [tc], fst fin))
      \<and> (rejected_here \<longrightarrow>
           LB = (st\<lparr>out := out st @ [Status (status_line t i (length (TESTS st))),
                                      Status_append ''${RED}FAIL${NORMAL}''],
                    calls := calls st @ map (Pair i) (take (Suc k) cmds @ snd fin)\<rparr>,
                 success, fst fin))
      \<and> (all_accepted \<or> rejected_here \<longrightarrow>
           (\<forall>q. sess Quit = Returns q \<longrightarrow>
                fin = (None, [Quit, Close])
                \<and> run_loop e a i (t # ts) (st, success)
                    = run_loop e a (Suc i) ts (fst LB, fst (snd LB)))
         \<and> (\<forall>x. sess Quit = Raises x \<longrightarrow>
                fin = (Some (Other x), [Quit])
                \<and> run_loop e a i (t # ts) (st, success)
                    = (fst LB, fst (snd LB), Some (Other x))))"
proof -
  let ?sess = "session_of e i"
  let ?cmds = "steps tc sa ra"
  obtain r' cs' where fin: "teardown ?sess = (r', cs')"
    by (cases "teardown ?sess")
  have quit_returns: "r' = None \<and> cs' = [Quit, Close]" if "?sess Quit = Returns q" for q
    using that fin by (simp add: teardown_def)
  have quit_raises: "r' = Some (Other x) \<and> cs' = [Quit]" if "?sess Quit = Raises x" for x
    using that fin by (simp add: teardown_def)
  have good: "loop_body e a i t (st, success)
      = (st\<lparr>out := out st @ [Status (status_line t i (length (TESTS st))),
                              Status_append ''${GREEN}SUCCESS${NORMAL}''],
            calls := calls st @ map (Pair i) (?cmds @ cs')\<rparr>, success @ [tc], r')"
    if "get_sender e tc = Returns sa" and "list_all (accepted ?sess) ?cmds"
  proof -
    from that assms(2)
    have "seq (setup_case ?sess tc) (test e ?sess tc) = (None, ?cmds)"
      by (simp add: all_steps_accepted)
    from loop_body_unfold [OF assms(1) this fin] show ?thesis
      by simp
  qed
  have bad: "loop_body e a i t (st, success)
      = (st\<lparr>out := out st @ [Status (status_line t i (length (TESTS st))),
                              Status_append ''${RED}FAIL${NORMAL}''],
            calls := calls st @ map (Pair i) (take (Suc k) ?cmds @ cs')\<rparr>, success, r')"
    if "k < 6" and "3 \<le> k \<longrightarrow> get_sender e tc = Returns sa"
      and "list_all (accepted ?sess) (take k ?cmds)" and "rejected ?sess (?cmds ! k)"
  proof -
    from that(4) obtain code msg where reply: "?sess (?cmds ! k) = Returns (code, msg)"
      and range: "500 \<le> code" "code \<le> 599"
      by (auto simp: rejected_def split: outcome.splits)
    from that(1-3) reply range assms(2)
    have "seq (setup_case ?sess tc) (test e ?sess tc)
            = (Some (SMTPError code msg), take (Suc k) ?cmds)"
      by (intro rejected_at) simp_all
    from loop_body_unfold [OF assms(1) this fin] show ?thesis
      by simp
  qed
  have next_or_stop:
    "(\<forall>q. ?sess Quit = Returns q \<longrightarrow>
        (r', cs') = (None, [Quit, Close])
        \<and> run_loop e a i (t # ts) (st, success)
            = run_loop e a (Suc i) ts (fst (loop_body e a i t (st, success)),
                                        fst (snd (loop_body e a i t (st, success)))))
     \<and> (\<forall>x. ?sess Quit = Raises x \<longrightarrow>
        (r', cs') = (Some (Other x), [Quit])
        \<and> run_loop e a i (t # ts) (st, success)
            = (fst (loop_body e a i t (st, success)),
               fst (snd (loop_body e a i t (st, success))), Some (Other x)))"
    if "\<exists>st' success'. loop_body e a i t (st, success) = (st', success', r')"
  proof -
    from that obtain st' success' where lb: "loop_body e a i t (st, success) = (st', success', r')"
      by blast
    show ?thesis
    proof (intro conjI allI impI)
      fix q assume "?sess Quit = Returns q"
      with quit_returns lb
      show "(r', cs') = (None, [Quit, Close])"
        and "run_loop e a i (t # ts) (st, success)
            = run_loop e a (Suc i) ts (fst (loop_body e a i t (st, success)),
                                        fst (snd (loop_body e a i t (st, success))))"
        by simp_all
    next
      fix x assume "?sess Quit = Raises x"
      with quit_raises lb
      show "(r', cs') = (Some (Other x), [Quit])"
        and "run_loop e a i (t # ts) (st, success)
            = (fst (loop_body e a i t (st, success)),
               fst (snd (loop_body e a i t (st, success))), Some (Other x))"
        by simp_all
    qed
  qed
  show ?thesis
    unfolding Let_def fin
  proof (intro conjI impI)
    assume "get_sender e tc = Returns sa \<and> list_all (accepted ?sess) ?cmds"
    with good show "loop_body e a i t (st, success)
      = (st\<lparr>out := out st @ [Status (status_line t i (length (TESTS st))),
                              Status_append ''${GREEN}SUCCESS${NORMAL}''],
            calls := calls st @ map (Pair i) (?cmds @ snd (r', cs'))\<rparr>,
         success @ [tc], fst (r', cs'))"
      by simp
  next
    assume "k < 6 \<and> (3 \<le> k \<longrightarrow> get_sender e tc = Returns sa)
              \<and> list_all (accepted ?sess) (take k ?cmds) \<and> rejected ?sess (?cmds ! k)"
    with bad show "loop_body e a i t (st, success)
      = (st\<lparr>out := out st @ [Status (status_line t i (length (TESTS st))),
                              Status_append ''${RED}FAIL${NORMAL}''],
            calls := calls st @ map (Pair i) (take (Suc k) ?cmds @ snd (r', cs'))\<rparr>,
         success, fst (r', cs'))"
      by simp
  next
    assume "(get_sender e tc = Returns sa \<and> list_all (accepted ?sess) ?cmds)
          \<or> (k < 6 \<and> (3 \<le> k \<longrightarrow> get_sender e tc = Returns sa)
              \<and> list_all (accepted ?sess) (take k ?cmds) \<and> rejected ?sess (?cmds ! k))"
    with good bad have "\<exists>st' success'. loop_body e a i t (st, success) = (st', success', r')"
      by blast
    from next_or_stop [OF this]
    show "\<forall>q. ?sess Quit = Returns q \<longrightarrow>
            (r', cs') = (None, [Quit, Close])
            \<and> run_loop e a i (t # ts) (st, success)
                = run_loop e a (Suc i) ts (fst (loop_body e a i t (st, success)),
                                            fst (snd (loop_body e a i t (st, success))))"
      and "\<forall>x. ?sess Quit = Raises x \<longrightarrow>
            (r', cs') = (Some (Other x), [Quit])
            \<and> run_loop e a i (t # ts) (st, success)
                = (fst (loop_body e a i t (st, success)),
                   fst (snd (loop_body e a i t (st, success))), Some (Other x))"
      by blast+
  qed
qed

subsection \<open>Example runs\<close>

lemma init_no_proxy:
  "http_proxy e = None \<Longrightarrow>
   init e c h l r p ssl dbg =
     Returns \<lparr>cls = c, host = h, port = p, local_addr = l, remote_addr = r,
              s = \<lparr>is_ssl = ssl, debuglevel = (if dbg then 1 else 0), p_address = None,
                   p_port = None\<rparr>\<rparr>"
  by (simp add: init_def proxy_from_environ_def)

lemma example_case_sel:
  "cls (example_case c) = c" "host (example_case c) = ''mail.example''"
  "port (example_case c) = PInt 0" "local_addr (example_case c) = ''bob@mail.example''"
  "remote_addr (example_case c) = ''user@example.com''"
  by (simp_all add: example_case_def)

lemma example_init:
  assumes "http_proxy e = None"
  shows "init e c (arg_host plain_args) (arg_local plain_args) (arg_remote plain_args)
           (arg_port plain_args) (arg_ssl plain_args) (arg_debug plain_args)
         = Returns (example_case c)"
  using assms
  by (simp add: init_no_proxy plain_args_def example_args_def example_case_def example_smtp_def)

lemma example_DefaultTest:
  "get_rcpt (example_case DefaultTest) = Returns ''user@example.com''"
  "get_sender e (example_case DefaultTest) = Returns ''user@example.com''"
  "get_ehlo_host (example_case DefaultTest) = ''example.com''"
  by (simp_all add: get_rcpt_def get_sender_def get_ehlo_host_def DefaultTest_get_rcpt_def
        DefaultTest_get_sender_def TestCase_get_ehlo_host_def example_case_sel str_split_def)

lemma example_LocalTest:
  "get_rcpt (example_case LocalTest) = Returns ''user@example.com''"
  "get_sender e (example_case LocalTest) = Returns ''bob@mail.example''"
  "get_ehlo_host (example_case LocalTest) = ''example.com''"
  by (simp_all add: get_rcpt_def get_sender_def get_ehlo_host_def DefaultTest_get_rcpt_def
        DefaultTest_get_sender_def LocalTest_get_sender_def TestCase_get_ehlo_host_def
        example_case_sel str_split_def)

lemma session_of_plain:
  "session_of e i (Connect h p) = server e i (Connect h p)"
  "session_of e i Rset = server e i Rset"
  "session_of e i (Data x) = server e i (Data x)"
  "session_of e i Quit = server e i Quit"
  "session_of e i Close = server e i Close"
  by (simp_all add: session_of_def smtp_call_def)

lemma session_of_example:
  "session_of e i (Ehlo ''example.com'') = server e i (Ehlo ''example.com'')"
  "session_of e i (Mail ''user@example.com'') = server e i (Mail ''user@example.com'')"
  "session_of e i (Mail ''bob@mail.example'') = server e i (Mail ''bob@mail.example'')"
  "session_of e i (Rcpt ''user@example.com'') = server e i (Rcpt ''user@example.com'')"
  by (simp_all add: session_of_def smtp_call_def mail_wire_eq rcpt_wire_eq putcmd_def
        send_command_def CRLF_def is_ascii_Cons)

lemma steps_DefaultTest:
  "steps (example_case DefaultTest) ''user@example.com'' ''user@example.com''
     = [Connect ''mail.example'' (PInt 0), Ehlo ''example.com'', Rset,
        Mail ''user@example.com'', Rcpt ''user@example.com'', Data ''Open Mail Relay'']"
  by (simp add: steps_def example_case_sel example_DefaultTest)

lemma steps_LocalTest:
  "steps (example_case LocalTest) ''bob@mail.example'' ''user@example.com''
     = [Connect ''mail.example'' (PInt 0), Ehlo ''example.com'', Rset,
        Mail ''bob@mail.example'', Rcpt ''user@example.com'', Data ''Open Mail Relay'']"
  by (simp add: steps_def example_case_sel example_LocalTest)

lemma fresh_sel:
  "out fresh_state = []" "calls fresh_state = []" "length (TESTS fresh_state) = 17"
  by (simp_all add: fresh_state_def TESTS_initial_def)

lemma first_status: "status_line DefaultTest 1 17 = ''DefaultTest (1/17) ''"
  by (simp add: status_line_def str_int_def str_nat.simps)

lemma second_status: "status_line LocalTest 2 17 = ''LocalTest (2/17) ''"
  by (simp add: status_line_def str_int_def str_nat.simps)

lemma run_tests_plain:
  assumes "http_proxy e = None" and "have_helperlib e" and "\<not> base_test a"
  shows "run_tests e a st =
           (case run_loop e a 1 (TESTS st) (st\<lparr>out := out st @ [Waitfor ''Testing'']\<rparr>, []) of
              (st3, success, Some x) \<Rightarrow> (st3, Some x)
            | (st3, success, None) \<Rightarrow>
                if success \<noteq> []
                then report e success (st3\<lparr>out := out st3 @ [Succeeded]\<rparr>)
                else (st3\<lparr>out := out st3 @ [Failed]\<rparr>, None))"
  using assms by (simp add: run_tests_def proxy_from_environ_def)

theorem verdict_recorded_and_next_variant_runs_witness:
  "run_loop example_env plain_args 1 [DefaultTest, LocalTest] (fresh_state, [])
     = (fresh_state\<lparr>out := [Status ''DefaultTest (1/17) '',
                             Status_append ''${GREEN}SUCCESS${NORMAL}'',
                             Status ''LocalTest (2/17) '',
                             Status_append ''${GREEN}SUCCESS${NORMAL}''],
          calls := [(1, Connect ''mail.example'' (PInt 0)), (1, Ehlo ''example.com''), (1, Rset),
                    (1, Mail ''user@example.com''), (1, Rcpt ''user@example.com''),
                    (1, Data ''Open Mail Relay''), (1, Quit), (1, Close),
                    (2, Connect ''mail.example'' (PInt 0)), (2, Ehlo ''example.com''), (2, Rset),
                    (2, Mail ''bob@mail.example''), (2, Rcpt ''user@example.com''),
                    (2, Data ''Open Mail Relay''), (2, Quit), (2, Close)]\<rparr>,
        [example_case DefaultTest, example_case LocalTest], None)
   \<and> run_loop (example_env\<lparr>server := reject_rcpt\<rparr>) plain_args 1 [DefaultTest, LocalTest]
       (fresh_state, [])
     = (fresh_state\<lparr>out := [Status ''DefaultTest (1/17) '',
                             Status_append ''${RED}FAIL${NORMAL}'',
                             Status ''LocalTest (2/17) '',
                             Status_append ''${RED}FAIL${NORMAL}''],
          calls := [(1, Connect ''mail.example'' (PInt 0)), (1, Ehlo ''example.com''), (1, Rset),
                    (1, Mail ''user@example.com''), (1, Rcpt ''user@example.com''),
                    (1, Quit), (1, Close),
                    (2, Connect ''mail.example'' (PInt 0)), (2, Ehlo ''example.com''), (2, Rset),
                    (2, Mail ''bob@mail.example''), (2, Rcpt ''user@example.com''),
                    (2, Quit), (2, Close)]\<rparr>,
        [], None)
   \<and> run_loop (example_env\<lparr>server := closing_server\<rparr>) plain_args 1 [DefaultTest, LocalTest]
       (fresh_state, [])
     = (fresh_state\<lparr>out := [Status ''DefaultTest (1/17) '',
                             Status_append ''${RED}FAIL${NORMAL}''],
          calls := [(1, Connect ''mail.example'' (PInt 0)), (1, Quit)]\<rparr>,
        [], Some (Other ''SMTPServerDisconnected''))"
proof -
  let ?D = "steps (example_case DefaultTest) ''user@example.com'' ''user@example.com''"
  let ?L = "steps (example_case LocalTest) ''bob@mail.example'' ''user@example.com''"
  have accepting: "run_loop example_env plain_args 1 [DefaultTest, LocalTest] (fresh_state, [])
     = (fresh_state\<lparr>out := [Status ''DefaultTest (1/17) '',
                             Status_append ''${GREEN}SUCCESS${NORMAL}'',
                             Status ''LocalTest (2/17) '',
                             Status_append ''${GREEN}SUCCESS${NORMAL}''],
          calls := [(1, Connect ''mail.example'' (PInt 0)), (1, Ehlo ''example.com''), (1, Rset),
                    (1, Mail ''user@example.com''), (1, Rcpt ''user@example.com''),
                    (1, Data ''Open Mail Relay''), (1, Quit), (1, Close),
                    (2, Connect ''mail.example'' (PInt 0)), (2, Ehlo ''example.com''), (2, Rset),
                    (2, Mail ''bob@mail.example''), (2, Rcpt ''user@example.com''),
                    (2, Data ''Open Mail Relay''), (2, Quit), (2, Close)]\<rparr>,
        [example_case DefaultTest, example_case LocalTest], None)"
  proof -
    let ?e = example_env
    let ?st1 = "fresh_state\<lparr>out := [Status ''DefaultTest (1/17) '',
                             Status_append ''${GREEN}SUCCESS${NORMAL}''],
          calls := [(1, Connect ''mail.example'' (PInt 0)), (1, Ehlo ''example.com''), (1, Rset),
                    (1, Mail ''user@example.com''), (1, Rcpt ''user@example.com''),
                    (1, Data ''Open Mail Relay''), (1, Quit), (1, Close)]\<rparr>"
    have e: "http_proxy ?e = None"
      by (simp add: example_env_def)
    have acc: "get_sender ?e (example_case DefaultTest) = Returns ''user@example.com''
                 \<and> list_all (accepted (session_of ?e i)) ?D"
      and acc': "get_sender ?e (example_case LocalTest) = Returns ''bob@mail.example''
                 \<and> list_all (accepted (session_of ?e i)) ?L"
      and quit: "session_of ?e i Quit = Returns (250, ''ok'')" for i
      by (simp_all add: steps_DefaultTest steps_LocalTest session_of_plain session_of_example
            example_env_def accept_all_def accepted_def example_DefaultTest example_LocalTest)
    note first = verdict_recorded_and_next_variant_runs
        [OF example_init [OF e] example_DefaultTest(1),
         where sa = "''user@example.com''" and i = 1 and k = 0 and ts = "[LocalTest]"
           and st = fresh_state and success = "[]", unfolded Let_def]
    note lb = first [THEN conjunct1, THEN mp, OF acc]
    note go = first [THEN conjunct2, THEN conjunct2, THEN mp, OF disjI1 [OF acc],
                THEN conjunct1, THEN spec, THEN mp, OF quit]
    have one: "run_loop ?e plain_args 1 [DefaultTest, LocalTest] (fresh_state, [])
       = run_loop ?e plain_args 2 [LocalTest] (?st1, [example_case DefaultTest])"
      unfolding go [THEN conjunct2] lb go [THEN conjunct1]
      by (simp del: run_loop.simps One_nat_def add: first_status steps_DefaultTest fresh_sel)
    note second = verdict_recorded_and_next_variant_runs
        [OF example_init [OF e] example_LocalTest(1),
         where sa = "''bob@mail.example''" and i = 2 and k = 0 and ts = "[]"
           and st = ?st1 and success = "[example_case DefaultTest]", unfolded Let_def]
    note lb' = second [THEN conjunct1, THEN mp, OF acc']
    note go' = second [THEN conjunct2, THEN conjunct2, THEN mp, OF disjI1 [OF acc'],
                 THEN conjunct1, THEN spec, THEN mp, OF quit]
    show ?thesis
      unfolding one go' [THEN conjunct2] lb' go' [THEN conjunct1]
      by (simp del: One_nat_def add: second_status steps_LocalTest fresh_sel)
  qed
  have rejecting: "run_loop (example_env\<lparr>server := reject_rcpt\<rparr>) plain_args 1
       [DefaultTest, LocalTest] (fresh_state, [])
     = (fresh_state\<lparr>out := [Status ''DefaultTest (1/17) '',
                             Status_append ''${RED}FAIL${NORMAL}'',
                             Status ''LocalTest (2/17) '',
                             Status_append ''${RED}FAIL${NORMAL}''],
          calls := [(1, Connect ''mail.example'' (PInt 0)), (1, Ehlo ''example.com''), (1, Rset),
                    (1, Mail ''user@example.com''), (1, Rcpt ''user@example.com''),
                    (1, Quit), (1, Close),
                    (2, Connect ''mail.example'' (PInt 0)), (2, Ehlo ''example.com''), (2, Rset),
                    (2, Mail ''bob@mail.example''), (2, Rcpt ''user@example.com''),
                    (2, Quit), (2, Close)]\<rparr>,
        [], None)"
  proof -
    let ?e = "example_env\<lparr>server := reject_rcpt\<rparr>"
    let ?st1 = "fresh_state\<lparr>out := [Status ''DefaultTest (1/17) '',
                             Status_append ''${RED}FAIL${NORMAL}''],
          calls := [(1, Connect ''mail.example'' (PInt 0)), (1, Ehlo ''example.com''), (1, Rset),
                    (1, Mail ''user@example.com''), (1, Rcpt ''user@example.com''),
                    (1, Quit), (1, Close)]\<rparr>"
    have e: "http_proxy ?e = None"
      by (simp add: example_env_def)
    have rej: "4 < (6::nat)
          \<and> ((3::nat) \<le> 4 \<longrightarrow> get_sender ?e (example_case DefaultTest) = Returns ''user@example.com'')
          \<and> list_all (accepted (session_of ?e i)) (take 4 ?D)
          \<and> rejected (session_of ?e i) (?D ! 4)"
      and rej': "4 < (6::nat)
          \<and> ((3::nat) \<le> 4 \<longrightarrow> get_sender ?e (example_case LocalTest) = Returns ''bob@mail.example'')
          \<and> list_all (accepted (session_of ?e i)) (take 4 ?L)
          \<and> rejected (session_of ?e i) (?L ! 4)"
      and quit: "session_of ?e i Quit = Returns (250, ''ok'')" for i
      by (simp_all add: steps_DefaultTest steps_LocalTest session_of_plain session_of_example
            reject_rcpt_def accepted_def rejected_def example_DefaultTest example_LocalTest)
    note first = verdict_recorded_and_next_variant_runs
        [OF example_init [OF e] example_DefaultTest(1),
         where sa = "''user@example.com''" and i = 1 and k = 4 and ts = "[LocalTest]"
           and st = fresh_state and success = "[]", unfolded Let_def]
    note lb = first [THEN conjunct2, THEN conjunct1, THEN mp, OF rej]
    note go = first [THEN conjunct2, THEN conjunct2, THEN mp, OF disjI2 [OF rej],
                THEN conjunct1, THEN spec, THEN mp, OF quit]
    have one: "run_loop ?e plain_args 1 [DefaultTest, LocalTest] (fresh_state, [])
       = run_loop ?e plain_args 2 [LocalTest] (?st1, [])"
      unfolding go [THEN conjunct2] lb go [THEN conjunct1]
      by (simp del: run_loop.simps One_nat_def add: first_status steps_DefaultTest fresh_sel)
    note second = verdict_recorded_and_next_variant_runs
        [OF example_init [OF e] example_LocalTest(1),
         where sa = "''bob@mail.example''" and i = 2 and k = 4 and ts = "[]"
           and st = ?st1 and success = "[]", unfolded Let_def]
    note lb' = second [THEN conjunct2, THEN conjunct1, THEN mp, OF rej']
    note go' = second [THEN conjunct2, THEN conjunct2, THEN mp, OF disjI2 [OF rej'],
                 THEN conjunct1, THEN spec, THEN mp, OF quit]
    show ?thesis
      unfolding one go' [THEN conjunct2] lb' go' [THEN conjunct1]
      by (simp del: One_nat_def add: second_status steps_LocalTest fresh_sel)
  qed
  have closing: "run_loop (example_env\<lparr>server := closing_server\<rparr>) plain_args 1
       [DefaultTest, LocalTest] (fresh_state, [])
     = (fresh_state\<lparr>out := [Status ''DefaultTest (1/17) '',
                             Status_append ''${RED}FAIL${NORMAL}''],
          calls := [(1, Connect ''mail.example'' (PInt 0)), (1, Quit)]\<rparr>,
        [], Some (Other ''SMTPServerDisconnected''))"
  proof -
    let ?e = "example_env\<lparr>server := closing_server\<rparr>"
    have e: "http_proxy ?e = None"
      by (simp add: example_env_def)
    have rej: "0 < (6::nat)
          \<and> ((3::nat) \<le> 0 \<longrightarrow> get_sender ?e (example_case DefaultTest) = Returns ''user@example.com'')
          \<and> list_all (accepted (session_of ?e 1)) (take 0 ?D)
          \<and> rejected (session_of ?e 1) (?D ! 0)"
      and quit: "session_of ?e 1 Quit = Raises ''SMTPServerDisconnected''"
      by (simp_all add: steps_DefaultTest session_of_plain closing_server_def rejected_def)
    note first = verdict_recorded_and_next_variant_runs
        [OF example_init [OF e] example_DefaultTest(1),
         where sa = "''user@example.com''" and i = 1 and k = 0 and ts = "[LocalTest]"
           and st = fresh_state and success = "[]", unfolded Let_def]
    note lb = first [THEN conjunct2, THEN conjunct1, THEN mp, OF rej]
    note stop = first [THEN conjunct2, THEN conjunct2, THEN mp, OF disjI2 [OF rej],
                  THEN conjunct2, THEN spec, THEN mp, OF quit]
    show ?thesis
      unfolding stop [THEN conjunct2] lb stop [THEN conjunct1]
      by (simp del: One_nat_def add: first_status steps_DefaultTest fresh_sel)
  qed
  from accepting rejecting closing show ?thesis
    by (intro conjI)
qed

text \<open>
  C5, as stated, fails: a server that greets with 554 and has closed the connection when
  \<open>QUIT\<close> arrives. The first variant is recorded as failed, then \<open>quit\<close> raises inside
  \<open>teardown\<close>, nothing catches it, and the run ends with that exception: no test case after
  the first makes any call.
\<close>

theorem rejection_then_quit_fails_counterexample:
  "rejected (session_of (example_env\<lparr>server := closing_server\<rparr>) 1)
     (Connect ''mail.example'' (PInt 0))
   \<and> run_tests (example_env\<lparr>server := closing_server\<rparr>) plain_args fresh_state
     = (fresh_state\<lparr>out := [Waitfor ''Testing'', Status ''DefaultTest (1/17) '',
                             Status_append ''${RED}FAIL${NORMAL}''],
          calls := [(1, Connect ''mail.example'' (PInt 0)), (1, Quit)]\<rparr>,
        Some (Other ''SMTPServerDisconnected''))"
proof -
  let ?e = "example_env\<lparr>server := closing_server\<rparr>"
  let ?st = "fresh_state\<lparr>out := out fresh_state @ [Waitfor ''Testing'']\<rparr>"
  have e: "http_proxy ?e = None" "have_helperlib ?e" "\<not> base_test plain_args"
    by (simp_all add: example_env_def plain_args_def)
  have body: "seq (setup_case (session_of ?e 1) (example_case DefaultTest))
                (test ?e (session_of ?e 1) (example_case DefaultTest))
              = (Some (SMTPError 554 ''no service''), [Connect ''mail.example'' (PInt 0)])"
    by (simp add: setup_case_def seq_def step_def assertNo5xx_def closing_server_def
          example_case_sel session_of_plain)
  have fin: "teardown (session_of ?e 1) = (Some (Other ''SMTPServerDisconnected''), [Quit])"
    by (simp add: teardown_def closing_server_def session_of_plain)
  have lb: "loop_body ?e plain_args 1 DefaultTest (?st, [])
      = (fresh_state\<lparr>out := [Waitfor ''Testing'', Status ''DefaultTest (1/17) '',
                             Status_append ''${RED}FAIL${NORMAL}''],
          calls := [(1, Connect ''mail.example'' (PInt 0)), (1, Quit)]\<rparr>, [],
         Some (Other ''SMTPServerDisconnected''))"
    using loop_body_unfold [OF example_init [OF e(1), of DefaultTest] body fin, of ?st "[]"]
    by (simp del: One_nat_def add: first_status fresh_sel)
  have "TESTS fresh_state = DefaultTest # tl TESTS_initial"
    by (simp add: fresh_state_def TESTS_initial_def)
  then have "run_loop ?e plain_args 1 (TESTS fresh_state) (?st, [])
      = (fresh_state\<lparr>out := [Waitfor ''Testing'', Status ''DefaultTest (1/17) '',
                             Status_append ''${RED}FAIL${NORMAL}''],
          calls := [(1, Connect ''mail.example'' (PInt 0)), (1, Quit)]\<rparr>, [],
         Some (Other ''SMTPServerDisconnected''))"
    using lb by simp
  then have "run_tests ?e plain_args fresh_state
      = (fresh_state\<lparr>out := [Waitfor ''Testing'', Status ''DefaultTest (1/17) '',
                             Status_append ''${RED}FAIL${NORMAL}''],
          calls := [(1, Connect ''mail.example'' (PInt 0)), (1, Quit)]\<rparr>,
         Some (Other ''SMTPServerDisconnected''))"
    using run_tests_plain [OF e, of fresh_state] by simp
  moreover have "rejected (session_of ?e 1) (Connect ''mail.example'' (PInt 0))"
    by (simp add: rejected_def closing_server_def session_of_plain)
  ultimately show ?thesis by simp
qed

subsection \<open>Teardown\<close>

lemma may_hold_socket_append:
  "may_hold_socket srv held (xs @ ys) = may_hold_socket srv (may_hold_socket srv held xs) ys"
  by (induction xs arbitrary: held) simp_all

lemma released_after_teardown: "\<not> may_hold_socket srv held (xs @ snd (teardown srv))"
  by (simp add: may_hold_socket_append teardown_def split: outcome.splits)

text \<open>
  C6, amended. For every test case that was constructed, whatever \<open>setup\<close> and \<open>test\<close>
  did (completed, raised \<open>SMTPError\<close>, raised anything else), \<open>teardown\<close> is invoked once
  after them: \<open>quit\<close> is called, and \<open>close\<close> is called after it exactly when \<open>quit\<close>
  returns; either way the session holds no socket afterwards. The loop goes on with the next
  class exactly when \<open>quit\<close> returned and \<open>setup\<close> and \<open>test\<close> raised nothing or an
  \<open>SMTPError\<close>; otherwise the exception (that of \<open>quit\<close> if it raised, else the pending
  one) leaves the loop and no further class is run.
\<close>

theorem teardown_on_every_exit_path:
  assumes "init e t (arg_host a) (arg_local a) (arg_remote a) (arg_port a) (arg_ssl a) (arg_debug a)
             = Returns tc"
  shows "let sess = session_of e i;
             LB = loop_body e a i t (st, success);
             body = seq (setup_case sess tc) (test e sess tc);
             fin = teardown sess
         in calls (fst LB) = calls st @ map (Pair i) (snd body @ snd fin)
          \<and> snd fin = (case sess Quit of Returns q \<Rightarrow> [Quit, Close] | Raises x \<Rightarrow> [Quit])
          \<and> \<not> may_hold_socket sess held (snd body @ snd fin)
          \<and> fst fin = (case sess Quit of Returns q \<Rightarrow> None | Raises x \<Rightarrow> Some (Other x))
          \<and> snd (snd LB) =
               (case fst fin of
                  Some y \<Rightarrow> Some y
                | None \<Rightarrow> (case fst body of Some (Other x) \<Rightarrow> Some (Other x) | _ \<Rightarrow> None))
          \<and> run_loop e a i (t # ts) (st, success) =
               (case snd (snd LB) of
                  None \<Rightarrow> run_loop e a (Suc i) ts (fst LB, fst (snd LB))
                | Some x \<Rightarrow> LB)"
proof -
  let ?sess = "session_of e i"
  obtain r cs where body: "seq (setup_case ?sess tc) (test e ?sess tc) = (r, cs)"
    by (cases "seq (setup_case ?sess tc) (test e ?sess tc)")
  note released = released_after_teardown [of ?sess held cs]
  show ?thesis
  proof (cases "?sess Quit")
    case (Returns q)
    then have fin: "teardown ?sess = (None, [Quit, Close])"
      by (simp add: teardown_def)
    note lb = loop_body_unfold [OF assms body fin, of st success]
    show ?thesis
    proof (cases r)
      case None
      with lb body fin Returns released show ?thesis
        by (simp add: Let_def)
    next
      case (Some x)
      with lb body fin Returns released show ?thesis
        by (cases x) (simp_all add: Let_def)
    qed
  next
    case (Raises y)
    then have fin: "teardown ?sess = (Some (Other y), [Quit])"
      by (simp add: teardown_def)
    note lb = loop_body_unfold [OF assms body fin, of st success]
    show ?thesis
    proof (cases r)
      case None
      with lb body fin Raises released show ?thesis
        by (simp add: Let_def)
    next
      case (Some x)
      with lb body fin Raises released show ?thesis
        by (cases x) (simp_all add: Let_def)
    qed
  qed
qed

theorem teardown_on_every_exit_path_witness:
  "calls (fst (loop_body (example_env\<lparr>server := unreachable_server\<rparr>) plain_args 1 DefaultTest
                 (fresh_state, [])))
     = [(1, Connect ''mail.example'' (PInt 0)), (1, Quit)]
   \<and> snd (snd (loop_body (example_env\<lparr>server := unreachable_server\<rparr>) plain_args 1 DefaultTest
                 (fresh_state, [])))
     = Some (Other ''SMTPServerDisconnected'')
   \<and> calls (fst (loop_body (example_env\<lparr>server := data_refusing_server\<rparr>) plain_args 1
                 DefaultTest (fresh_state, [])))
     = [(1, Connect ''mail.example'' (PInt 0)), (1, Ehlo ''example.com''), (1, Rset),
        (1, Mail ''user@example.com''), (1, Rcpt ''user@example.com''),
        (1, Data ''Open Mail Relay''), (1, Quit), (1, Close)]
   \<and> may_hold_socket (session_of (example_env\<lparr>server := data_refusing_server\<rparr>) 1) False
        [Connect ''mail.example'' (PInt 0), Ehlo ''example.com'', Rset,
         Mail ''user@example.com'', Rcpt ''user@example.com'', Data ''Open Mail Relay'']
   \<and> \<not> may_hold_socket (session_of (example_env\<lparr>server := data_refusing_server\<rparr>) 1) False
        [Connect ''mail.example'' (PInt 0), Ehlo ''example.com'', Rset,
         Mail ''user@example.com'', Rcpt ''user@example.com'', Data ''Open Mail Relay'',
         Quit, Close]"
proof -
  let ?e = "example_env\<lparr>server := unreachable_server\<rparr>"
  let ?d = "example_env\<lparr>server := data_refusing_server\<rparr>"
  have e: "http_proxy ?e = None" and d: "http_proxy ?d = None"
    by (simp_all add: example_env_def)
  have body: "seq (setup_case (session_of ?e 1) (example_case DefaultTest))
                (test ?e (session_of ?e 1) (example_case DefaultTest))
              = (Some (Other ''ConnectionRefusedError''), [Connect ''mail.example'' (PInt 0)])"
    by (simp add: setup_case_def seq_def step_def assertNo5xx_def unreachable_server_def
          example_case_sel session_of_plain)
  have quit: "session_of ?e 1 Quit = Raises ''SMTPServerDisconnected''"
    by (simp add: unreachable_server_def session_of_plain)
  have body': "seq (setup_case (session_of ?d 1) (example_case DefaultTest))
                (test ?d (session_of ?d 1) (example_case DefaultTest))
              = (Some (Other ''SMTPDataError''),
                 [Connect ''mail.example'' (PInt 0), Ehlo ''example.com'', Rset,
                  Mail ''user@example.com'', Rcpt ''user@example.com'', Data ''Open Mail Relay''])"
    by (simp add: setup_case_def test_def with_arg_def seq_def step_def assertNo5xx_def
          data_refusing_server_def example_case_sel example_DefaultTest session_of_plain
          session_of_example)
  have quit': "session_of ?d 1 Quit = Returns (250, ''ok'')"
    by (simp add: data_refusing_server_def session_of_plain)
  have held: "may_hold_socket (session_of ?d 1) False
        [Connect ''mail.example'' (PInt 0), Ehlo ''example.com'', Rset,
         Mail ''user@example.com'', Rcpt ''user@example.com'', Data ''Open Mail Relay'']"
    by (simp add: session_of_plain data_refusing_server_def)
  from teardown_on_every_exit_path [OF example_init [OF e, of DefaultTest],
         of 1 fresh_state "[]" False "[]"] body quit
  have "calls (fst (loop_body ?e plain_args 1 DefaultTest (fresh_state, [])))
          = [(1, Connect ''mail.example'' (PInt 0)), (1, Quit)]
      \<and> snd (snd (loop_body ?e plain_args 1 DefaultTest (fresh_state, [])))
          = Some (Other ''SMTPServerDisconnected'')"
    by (simp add: Let_def fresh_state_def)
  moreover
  from teardown_on_every_exit_path [OF example_init [OF d, of DefaultTest],
         of 1 fresh_state "[]" False "[]"] body' quit'
  have "calls (fst (loop_body ?d plain_args 1 DefaultTest (fresh_state, [])))
          = [(1, Connect ''mail.example'' (PInt 0)), (1, Ehlo ''example.com''), (1, Rset),
             (1, Mail ''user@example.com''), (1, Rcpt ''user@example.com''),
             (1, Data ''Open Mail Relay''), (1, Quit), (1, Close)]
      \<and> \<not> may_hold_socket (session_of ?d 1) False
            [Connect ''mail.example'' (PInt 0), Ehlo ''example.com'', Rset,
             Mail ''user@example.com'', Rcpt ''user@example.com'', Data ''Open Mail Relay'',
             Quit, Close]"
    by (simp add: Let_def fresh_state_def)
  ultimately show ?thesis
    using held by simp
qed

text \<open>
  C6, as stated, fails: a failure on one variant can prevent the next one from running. A
  server whose answer to \<open>DATA\<close> makes smtplib raise SMTPDataError: \<open>teardown\<close> runs
  (\<open>quit\<close> and \<open>close\<close> are called), then the exception, which is not an \<open>SMTPError\<close>,
  ends the run during the first variant.
\<close>

theorem unexpected_failure_ends_batch_counterexample:
  "run_tests (example_env\<lparr>server := data_refusing_server\<rparr>) plain_args fresh_state
     = (fresh_state\<lparr>out := [Waitfor ''Testing'', Status ''DefaultTest (1/17) ''],
          calls := [(1, Connect ''mail.example'' (PInt 0)), (1, Ehlo ''example.com''), (1, Rset),
                    (1, Mail ''user@example.com''), (1, Rcpt ''user@example.com''),
                    (1, Data ''Open Mail Relay''), (1, Quit), (1, Close)]\<rparr>,
        Some (Other ''SMTPDataError''))"
proof -
  let ?e = "example_env\<lparr>server := data_refusing_server\<rparr>"
  let ?st = "fresh_state\<lparr>out := out fresh_state @ [Waitfor ''Testing'']\<rparr>"
  have e: "http_proxy ?e = None" "have_helperlib ?e" "\<not> base_test plain_args"
    by (simp_all add: example_env_def plain_args_def)
  have body: "seq (setup_case (session_of ?e 1) (example_case DefaultTest))
                (test ?e (session_of ?e 1) (example_case DefaultTest))
              = (Some (Other ''SMTPDataError''),
                 [Connect ''mail.example'' (PInt 0), Ehlo ''example.com'', Rset,
                  Mail ''user@example.com'', Rcpt ''user@example.com'', Data ''Open Mail Relay''])"
    by (simp add: setup_case_def test_def with_arg_def seq_def step_def assertNo5xx_def
          data_refusing_server_def example_case_sel example_DefaultTest session_of_plain
          session_of_example)
  have fin: "teardown (session_of ?e 1) = (None, [Quit, Close])"
    by (simp add: teardown_def data_refusing_server_def session_of_plain)
  have lb: "loop_body ?e plain_args 1 DefaultTest (?st, [])
      = (fresh_state\<lparr>out := [Waitfor ''Testing'', Status ''DefaultTest (1/17) ''],
          calls := [(1, Connect ''mail.example'' (PInt 0)), (1, Ehlo ''example.com''), (1, Rset),
                    (1, Mail ''user@example.com''), (1, Rcpt ''user@example.com''),
                    (1, Data ''Open Mail Relay''), (1, Quit), (1, Close)]\<rparr>, [],
         Some (Other ''SMTPDataError''))"
    using loop_body_unfold [OF example_init [OF e(1), of DefaultTest] body fin, of ?st "[]"]
    by (simp del: One_nat_def add: first_status fresh_sel)
  have "TESTS fresh_state = DefaultTest # tl TESTS_initial"
    by (simp add: fresh_state_def TESTS_initial_def)
  then have "run_loop ?e plain_args 1 (TESTS fresh_state) (?st, [])
      = (fresh_state\<lparr>out := [Waitfor ''Testing'', Status ''DefaultTest (1/17) ''],
          calls := [(1, Connect ''mail.example'' (PInt 0)), (1, Ehlo ''example.com''), (1, Rset),
                    (1, Mail ''user@example.com''), (1, Rcpt ''user@example.com''),
                    (1, Data ''Open Mail Relay''), (1, Quit), (1, Close)]\<rparr>, [],
         Some (Other ''SMTPDataError''))"
    using lb by simp
  then show ?thesis
    using run_tests_plain [OF e, of fresh_state] by simp
qed

subsection \<open>The progress sequence\<close>

lemma status_lines_append: "status_lines (xs @ ys) = status_lines xs @ status_lines ys"
  by (induction xs rule: status_lines.induct) simp_all

lemma loop_body_progress:
  "status_lines (out (fst (loop_body e a i t (st, success))))
     = status_lines (out st) @ [status_line t i (length (TESTS st))]"
  by (simp add: loop_body_def status_format status_line_def Let_def status_lines_append
        split: outcome.splits option.splits exn.splits)

lemma run_loop_progress:
  "\<exists>k\<le>length ts.
     status_lines (out (fst (run_loop e a i ts (st, success))))
       = status_lines (out st) @ take k (numbered i (length (TESTS st)) ts)
     \<and> (snd (snd (run_loop e a i ts (st, success))) = None \<longrightarrow> k = length ts)"
proof (induction ts arbitrary: i st success)
  case Nil
  show ?case by simp
next
  case (Cons t ts)
  obtain st' success' r where lb: "loop_body e a i t (st, success) = (st', success', r)"
    by (cases "loop_body e a i t (st, success)")
  from loop_body_progress [of e a i t st success] lb
  have out': "status_lines (out st') = status_lines (out st) @ [status_line t i (length (TESTS st))]"
    by simp
  from loop_body_TESTS [of e a i t st success] lb have tests': "TESTS st' = TESTS st"
    by simp
  show ?case
  proof (cases r)
    case (Some x)
    with lb have rl: "run_loop e a i (t # ts) (st, success) = (st', success', Some x)"
      by simp
    have eq: "status_lines (out (fst (run_loop e a i (t # ts) (st, success))))
            = status_lines (out st) @ take 1 (numbered i (length (TESTS st)) (t # ts))"
      unfolding rl using out' by simp
    have full: "snd (snd (run_loop e a i (t # ts) (st, success))) = None
                     \<longrightarrow> 1 = length (t # ts)"
      unfolding rl by simp
    have le: "1 \<le> length (t # ts)"
      by simp
    show ?thesis
      using le eq full by (intro exI [of _ 1] conjI)
  next
    case None
    with lb have rl: "run_loop e a i (t # ts) (st, success)
                        = run_loop e a (Suc i) ts (st', success')"
      by simp
    from Cons.IH [of "Suc i" st' success'] obtain k where k: "k \<le> length ts"
      "status_lines (out (fst (run_loop e a (Suc i) ts (st', success'))))
         = status_lines (out st') @ take k (numbered (Suc i) (length (TESTS st')) ts)"
      "snd (snd (run_loop e a (Suc i) ts (st', success'))) = None \<longrightarrow> k = length ts"
      by (elim exE conjE)
    have eq: "status_lines (out (fst (run_loop e a i (t # ts) (st, success))))
            = status_lines (out st)
              @ take (Suc k) (numbered i (length (TESTS st)) (t # ts))"
      unfolding rl k(2) out' tests' by simp
    have full: "snd (snd (run_loop e a i (t # ts) (st, success))) = None
                     \<longrightarrow> Suc k = length (t # ts)"
      unfolding rl using k(3) by simp
    have le: "Suc k \<le> length (t # ts)"
      using k(1) by simp
    show ?thesis
      using le eq full by (intro exI [of _ "Suc k"] conjI)
  qed
qed

lemma report_progress: "status_lines (out (fst (report e succ st))) = status_lines (out st)"
  by (induction succ arbitrary: st) (simp_all add: status_lines_append split: outcome.splits)

lemma numbered_nth:
  "j < length ts \<Longrightarrow> numbered first len ts ! j = status_line (ts ! j) (first + j) len"
  by (induction ts arbitrary: first j) (auto simp: nth_Cons split: nat.splits)

lemma length_numbered: "length (numbered first len ts) = length ts"
  by (induction ts arbitrary: first) simp_all

lemma after_loop_progress:
  assumes "TESTS st2 = reg"
  shows "\<exists>k\<le>length reg.
           status_lines (out (fst (case run_loop e a 1 reg (st2, []) of
                (st3, success, Some y) \<Rightarrow> (st3, Some y)
              | (st3, success, None) \<Rightarrow>
                  if success \<noteq> []
                  then report e success (st3\<lparr>out := out st3 @ [Succeeded]\<rparr>)
                  else (st3\<lparr>out := out st3 @ [Failed]\<rparr>, None))))
             = status_lines (out st2) @ take k (numbered 1 (length reg) reg)
         \<and> (snd (case run_loop e a 1 reg (st2, []) of
                (st3, success, Some y) \<Rightarrow> (st3, Some y)
              | (st3, success, None) \<Rightarrow>
                  if success \<noteq> []
                  then report e success (st3\<lparr>out := out st3 @ [Succeeded]\<rparr>)
                  else (st3\<lparr>out := out st3 @ [Failed]\<rparr>, None)) = None
              \<longrightarrow> k = length reg)"
proof -
  obtain st3 success r where rl: "run_loop e a 1 reg (st2, []) = (st3, success, r)"
    by (cases "run_loop e a 1 reg (st2, [])")
  from run_loop_progress [of reg e a 1 st2 "[]"] rl assms
  obtain k where k: "k \<le> length reg"
    "status_lines (out st3) = status_lines (out st2) @ take k (numbered 1 (length reg) reg)"
    "r = None \<longrightarrow> k = length reg"
    by auto
  show ?thesis
  proof (cases r)
    case (Some y)
    show ?thesis
      unfolding rl Some using k(1,2) by (intro exI [of _ k]) simp
  next
    case None
    with k(3) have full: "k = length reg" by simp
    have "status_lines (out (fst (if success \<noteq> []
              then report e success (st3\<lparr>out := out st3 @ [Succeeded]\<rparr>)
              else (st3\<lparr>out := out st3 @ [Failed]\<rparr>, None))))
          = status_lines (out st3)"
      by (simp add: report_progress status_lines_append)
    then show ?thesis
      unfolding rl None using k(1,2) full by (intro exI [of _ k]) simp
  qed
qed

lemma run_tests_progress:
  "\<exists>k\<le>length (if base_test a then BaseTest # TESTS st else TESTS st).
     status_lines (out (fst (run_tests e a st)))
       = status_lines (out st)
         @ take k (numbered 1 (length (if base_test a then BaseTest # TESTS st else TESTS st))
                     (if base_test a then BaseTest # TESTS st else TESTS st))
     \<and> (snd (run_tests e a st) = None
          \<longrightarrow> k = length (if base_test a then BaseTest # TESTS st else TESTS st))"
proof -
  define reg where "reg = (if base_test a then BaseTest # TESTS st else TESTS st)"
  define st1 where "st1 = (if base_test a then st\<lparr>TESTS := BaseTest # TESTS st\<rparr> else st)"
  have st1: "TESTS st1 = reg" "out st1 = out st"
    by (simp_all add: st1_def reg_def)
  have early: "\<exists>k\<le>length reg.
           status_lines (out (fst (st1, Some x)))
             = status_lines (out st) @ take k (numbered 1 (length reg) reg)
         \<and> (snd (st1, Some x) = None \<longrightarrow> k = length reg)" for x :: exn
    using st1 by (intro exI [of _ 0]) simp
  have late: "\<exists>k\<le>length reg.
           status_lines (out (fst (case run_loop e a 1 reg (st1\<lparr>out := out st1 @ info @ [Waitfor ''Testing'']\<rparr>, []) of
                (st3, success, Some y) \<Rightarrow> (st3, Some y)
              | (st3, success, None) \<Rightarrow>
                  if success \<noteq> []
                  then report e success (st3\<lparr>out := out st3 @ [Succeeded]\<rparr>)
                  else (st3\<lparr>out := out st3 @ [Failed]\<rparr>, None))))
             = status_lines (out st) @ take k (numbered 1 (length reg) reg)
         \<and> (snd (case run_loop e a 1 reg (st1\<lparr>out := out st1 @ info @ [Waitfor ''Testing'']\<rparr>, []) of
                (st3, success, Some y) \<Rightarrow> (st3, Some y)
              | (st3, success, None) \<Rightarrow>
                  if success \<noteq> []
                  then report e success (st3\<lparr>out := out st3 @ [Succeeded]\<rparr>)
                  else (st3\<lparr>out := out st3 @ [Failed]\<rparr>, None)) = None
              \<longrightarrow> k = length reg)"
    if "status_lines info = []" for info
    using after_loop_progress [of "st1\<lparr>out := out st1 @ info @ [Waitfor ''Testing'']\<rparr>" reg e a]
      st1 that
    by (simp add: status_lines_append)
  have "\<exists>k\<le>length reg.
     status_lines (out (fst (run_tests e a st)))
       = status_lines (out st) @ take k (numbered 1 (length reg) reg)
     \<and> (snd (run_tests e a st) = None \<longrightarrow> k = length reg)"
  proof (cases "proxy_from_environ e")
    case (Raises x)
    with early [of "Other x"] show ?thesis
      by (simp add: run_tests_def Let_def st1_def)
  next
    case (Returns proxy)
    show ?thesis
    proof (cases "have_helperlib e")
      case False
      with Returns early [of "Other ''AttributeError''"] show ?thesis
        by (simp add: run_tests_def Let_def st1_def)
    next
      case True
      show ?thesis
      proof (cases proxy)
        case None
        with Returns True late [of "[]"] st1(1) show ?thesis
          unfolding run_tests_def Let_def st1_def [symmetric] by simp
      next
        case (Some pr)
        obtain pa pp where pr: "pr = (pa, pp)" by (cases pr)
        show ?thesis
        proof (cases "str_format (''Using Proxy {}:{}'' @ LF) [PStr pa, PInt pp]")
          case (Raises x)
          with Returns True Some pr early [of "Other x"] show ?thesis
            unfolding run_tests_def Let_def st1_def [symmetric] by simp
        next
          case Returns2: (Returns line)
          with Returns True Some pr late [of "[Info line]"] st1(1) show ?thesis
            unfolding run_tests_def Let_def st1_def [symmetric] by simp
        qed
      qed
    qed
  qed
  then show ?thesis
    unfolding reg_def .
qed

lemma numbered_with_baseline:
  "take 18 (status_line BaseTest 1 18 # numbered 2 18 TESTS_initial)
     = [''BaseTest (1/18) '', ''DefaultTest (2/18) '', ''BogusLocalTest (3/18) '',
        ''LocalTest (4/18) '', ''LocalhostTest (5/18) '', ''UseronlyTest (6/18) '',
        ''NullTest (7/18) '', ''PercentRemoteTest (8/18) '', ''KnownTest (9/18) '',
        ''EmptyHostTest (10/18) '', ''AddressTest (11/18) '', ''HostDomainTest (12/18) '',
        ''NonexistingEhloTest (13/18) '', ''EhloOverflowTest (14/18) '',
        ''BangPathTest (15/18) '', ''SourceRouting (16/18) '', ''SourceRouting2 (17/18) '',
        ''SourceRoutingPercent (18/18) '']"
  by (simp add: TESTS_initial_def status_line_def str_int_def str_nat.simps)

lemma numbered_without_baseline:
  "take 17 (numbered 1 17 TESTS_initial)
     = [''DefaultTest (1/17) '', ''BogusLocalTest (2/17) '',
        ''LocalTest (3/17) '', ''LocalhostTest (4/17) '', ''UseronlyTest (5/17) '',
        ''NullTest (6/17) '', ''PercentRemoteTest (7/17) '', ''KnownTest (8/17) '',
        ''EmptyHostTest (9/17) '', ''AddressTest (10/17) '', ''HostDomainTest (11/17) '',
        ''NonexistingEhloTest (12/17) '', ''EhloOverflowTest (13/17) '',
        ''BangPathTest (14/17) '', ''SourceRouting (15/17) '', ''SourceRouting2 (16/17) '',
        ''SourceRoutingPercent (17/17) '']"
  by (simp add: TESTS_initial_def status_line_def str_int_def str_nat.simps)

lemma busy_loop_body:
  assumes "http_proxy e = None" and "server e = busy_server"
  shows "snd (snd (loop_body e a i t (st, success))) = None
       \<and> fst (snd (loop_body e a i t (st, success))) = success"
proof -
  let ?tc = "\<lparr>cls = t, host = arg_host a, port = arg_port a, local_addr = arg_local a,
              remote_addr = arg_remote a,
              s = \<lparr>is_ssl = arg_ssl a, debuglevel = (if arg_debug a then 1 else 0),
                   p_address = None, p_port = None\<rparr>\<rparr>"
  have body: "seq (setup_case (session_of e i) ?tc) (test e (session_of e i) ?tc)
                = (Some (SMTPError 554 ''no service''), [Connect (arg_host a) (arg_port a)])"
    using assms(2)
    by (simp add: setup_case_def seq_def step_def assertNo5xx_def busy_server_def
          session_of_plain)
  have fin: "teardown (session_of e i) = (None, [Quit, Close])"
    using assms(2) by (simp add: teardown_def busy_server_def session_of_plain)
  from loop_body_unfold [where e = e and a = a and i = i and t = t and st = st
         and success = success, OF init_no_proxy [OF assms(1)] body fin]
  show ?thesis
    by simp
qed

lemma busy_run_loop:
  assumes "http_proxy e = None" and "server e = busy_server"
  shows "snd (snd (run_loop e a i ts (st, success))) = None
       \<and> fst (snd (run_loop e a i ts (st, success))) = success"
proof (induction ts arbitrary: i st)
  case Nil
  show ?case by simp
next
  case (Cons t ts)
  obtain st' success' r where lb: "loop_body e a i t (st, success) = (st', success', r)"
    by (cases "loop_body e a i t (st, success)")
  with busy_loop_body [OF assms, of a i t st success]
  have "r = None" and "success' = success"
    by simp_all
  with lb Cons.IH [of "Suc i" st'] show ?case
    by simp
qed

lemma busy_run_completes:
  assumes "http_proxy e = None" and "have_helperlib e" and "server e = busy_server"
  shows "snd (run_tests e a st) = None"
proof -
  define st2 where
    "st2 = (if base_test a then st\<lparr>TESTS := BaseTest # TESTS st\<rparr> else st)
             \<lparr>out := out (if base_test a then st\<lparr>TESTS := BaseTest # TESTS st\<rparr> else st)
                       @ [Waitfor ''Testing'']\<rparr>"
  obtain st3 success r where rl: "run_loop e a 1 (TESTS st2) (st2, []) = (st3, success, r)"
    by (cases "run_loop e a 1 (TESTS st2) (st2, [])")
  with busy_run_loop [OF assms(1,3), of a 1 "TESTS st2" st2 "[]"]
  have "r = None" and "success = []"
    by simp_all
  with rl assms(1,2) show ?thesis
    unfolding run_tests_def Let_def st2_def [symmetric]
    by (simp add: proxy_from_environ_def st2_def [symmetric])
qed

text \<open>
  C9. The status lines one call of \<open>run_tests\<close> adds are an initial part of the registry
  in its order, numbered \<open>(i/total)\<close> from 1, and all of it when the call ends without an
  exception. Without the baseline the \<open>j\<close>-th class of the registry has index \<open>j + 1\<close>;
  with the baseline asked for, \<open>BaseTest\<close> comes first with index 1 and the \<open>j\<close>-th class
  of the registry has index \<open>j + 2\<close>, one more, the classes in the same order.
\<close>

theorem progress_follows_registry_order:
  "let reg = TESTS st;
       n = length reg;
       progress = status_lines (out (fst (run_tests e a st)));
       before = status_lines (out st);
       completed = (snd (run_tests e a st) = None)
   in (\<not> base_test a \<longrightarrow>
         (\<exists>k\<le>n. progress = before @ take k (numbered 1 n reg) \<and> (completed \<longrightarrow> k = n)))
    \<and> (base_test a \<longrightarrow>
         (\<exists>k\<le>Suc n. progress
                      = before @ take k (status_line BaseTest 1 (Suc n) # numbered 2 (Suc n) reg)
                    \<and> (completed \<longrightarrow> k = Suc n)))
    \<and> (\<forall>j<n. numbered 1 n reg ! j = status_line (reg ! j) (j + 1) n
              \<and> numbered 2 (Suc n) reg ! j = status_line (reg ! j) (j + 2) (Suc n))"
proof -
  note prog = run_tests_progress [of a st e]
  have plain: "\<exists>k\<le>length (TESTS st).
      status_lines (out (fst (run_tests e a st)))
        = status_lines (out st) @ take k (numbered 1 (length (TESTS st)) (TESTS st))
      \<and> (snd (run_tests e a st) = None \<longrightarrow> k = length (TESTS st))"
    if "\<not> base_test a"
    using prog that by simp
  have baseline: "\<exists>k\<le>Suc (length (TESTS st)).
      status_lines (out (fst (run_tests e a st)))
        = status_lines (out st)
          @ take k (status_line BaseTest 1 (Suc (length (TESTS st)))
                    # numbered 2 (Suc (length (TESTS st))) (TESTS st))
      \<and> (snd (run_tests e a st) = None \<longrightarrow> k = Suc (length (TESTS st)))"
    if "base_test a"
    using prog that by (simp add: numeral_2_eq_2)
  have index: "numbered 1 (length (TESTS st)) (TESTS st) ! j
                 = status_line (TESTS st ! j) (j + 1) (length (TESTS st))
             \<and> numbered 2 (Suc (length (TESTS st))) (TESTS st) ! j
                 = status_line (TESTS st ! j) (j + 2) (Suc (length (TESTS st)))"
    if "j < length (TESTS st)" for j
    using that by (simp add: numbered_nth add.commute)
  from plain baseline index show ?thesis
    unfolding Let_def by blast
qed

theorem progress_follows_registry_order_witness:
  "status_lines (out (fst (run_tests (example_env\<lparr>server := busy_server\<rparr>) example_args fresh_state)))
     = [''BaseTest (1/18) '', ''DefaultTest (2/18) '', ''BogusLocalTest (3/18) '',
        ''LocalTest (4/18) '', ''LocalhostTest (5/18) '', ''UseronlyTest (6/18) '',
        ''NullTest (7/18) '', ''PercentRemoteTest (8/18) '', ''KnownTest (9/18) '',
        ''EmptyHostTest (10/18) '', ''AddressTest (11/18) '', ''HostDomainTest (12/18) '',
        ''NonexistingEhloTest (13/18) '', ''EhloOverflowTest (14/18) '',
        ''BangPathTest (15/18) '', ''SourceRouting (16/18) '', ''SourceRouting2 (17/18) '',
        ''SourceRoutingPercent (18/18) '']
   \<and> status_lines (out (fst (run_tests (example_env\<lparr>server := busy_server\<rparr>) plain_args fresh_state)))
     = [''DefaultTest (1/17) '', ''BogusLocalTest (2/17) '',
        ''LocalTest (3/17) '', ''LocalhostTest (4/17) '', ''UseronlyTest (5/17) '',
        ''NullTest (6/17) '', ''PercentRemoteTest (7/17) '', ''KnownTest (8/17) '',
        ''EmptyHostTest (9/17) '', ''AddressTest (10/17) '', ''HostDomainTest (11/17) '',
        ''NonexistingEhloTest (12/17) '', ''EhloOverflowTest (13/17) '',
        ''BangPathTest (14/17) '', ''SourceRouting (15/17) '', ''SourceRouting2 (16/17) '',
        ''SourceRoutingPercent (17/17) '']
   \<and> numbered 1 17 TESTS_initial ! 6 = status_line PercentRemoteTest 7 17
   \<and> numbered 2 18 TESTS_initial ! 6 = status_line PercentRemoteTest 8 18"
proof -
  have reg: "TESTS fresh_state = TESTS_initial" "length TESTS_initial = 17"
    "out fresh_state = []"
    by (simp_all add: fresh_state_def TESTS_initial_def)
  have base: "base_test example_args" and plain: "\<not> base_test plain_args"
    by (simp_all add: example_args_def plain_args_def)
  have completes: "snd (run_tests (example_env\<lparr>server := busy_server\<rparr>) a fresh_state) = None"
    for a
    by (rule busy_run_completes) (simp_all add: example_env_def)
  note with_baseline = progress_follows_registry_order
      [where st = fresh_state and e = "example_env\<lparr>server := busy_server\<rparr>" and a = example_args, unfolded Let_def,
       THEN conjunct2, THEN conjunct1, THEN mp, OF base]
  note without_baseline = progress_follows_registry_order
      [where st = fresh_state and e = "example_env\<lparr>server := busy_server\<rparr>" and a = plain_args, unfolded Let_def,
       THEN conjunct1, THEN mp, OF plain]
  note index = progress_follows_registry_order
      [where st = fresh_state and e = "example_env\<lparr>server := busy_server\<rparr>" and a = plain_args, unfolded Let_def,
       THEN conjunct2, THEN conjunct2, THEN spec, where x = 6]
  from with_baseline obtain k where
    "status_lines (out (fst (run_tests (example_env\<lparr>server := busy_server\<rparr>) example_args fresh_state)))
       = take k (status_line BaseTest 1 18 # numbered 2 18 TESTS_initial)"
    and "snd (run_tests (example_env\<lparr>server := busy_server\<rparr>) example_args fresh_state) = None \<longrightarrow> k = 18"
    unfolding reg by auto
  with completes [of example_args]
  have first: "status_lines (out (fst (run_tests (example_env\<lparr>server := busy_server\<rparr>) example_args fresh_state)))
       = take 18 (status_line BaseTest 1 18 # numbered 2 18 TESTS_initial)"
    by simp
  from without_baseline obtain k' where
    "status_lines (out (fst (run_tests (example_env\<lparr>server := busy_server\<rparr>) plain_args fresh_state)))
       = take k' (numbered 1 17 TESTS_initial)"
    and "snd (run_tests (example_env\<lparr>server := busy_server\<rparr>) plain_args fresh_state) = None \<longrightarrow> k' = 17"
    unfolding reg by auto
  with completes [of plain_args]
  have second: "status_lines (out (fst (run_tests (example_env\<lparr>server := busy_server\<rparr>) plain_args fresh_state)))
       = take 17 (numbered 1 17 TESTS_initial)"
    by simp
  from index
  have third: "numbered 1 17 TESTS_initial ! 6 = status_line PercentRemoteTest 7 17
             \<and> numbered 2 18 TESTS_initial ! 6 = status_line PercentRemoteTest 8 18"
    unfolding reg by (simp add: TESTS_initial_def)
  show ?thesis
    unfolding first second numbered_with_baseline numbered_without_baseline
    using third by simp
qed

end
